theory Spec2Isabelle
  imports Complex_Main "HOL-Library.Char_ord" "HOL-Library.List_Lexorder"
begin

section \<open>Values of the Python program\<close>

text \<open>
  The program is the script \<^verbatim>\<open>run_strategy.py\<close>. A Python \<^verbatim>\<open>str\<close> is a
  \<^typ>\<open>string\<close> whose characters are code points below 256. An exception is its class,
  given by the names on its method resolution order, and its message; a handler
  \<^verbatim>\<open>except C\<close> catches it when \<^verbatim>\<open>C\<close> is one of these names.
\<close>

datatype pyexn = PyExn (exn_mro: "string list") (exn_msg: string)

definition isinstance_exn :: "pyexn \<Rightarrow> string \<Rightarrow> bool" where
  "isinstance_exn e c = (c \<in> set (exn_mro e))"

definition ImportError :: "string \<Rightarrow> pyexn" where
  "ImportError m = PyExn [''ImportError'', ''Exception'', ''BaseException''] m"

definition ModuleNotFoundError :: "string \<Rightarrow> pyexn" where
  "ModuleNotFoundError m =
     PyExn [''ModuleNotFoundError'', ''ImportError'', ''Exception'', ''BaseException''] m"

definition ValueError :: "string \<Rightarrow> pyexn" where
  "ValueError m = PyExn [''ValueError'', ''Exception'', ''BaseException''] m"

definition TypeError :: "string \<Rightarrow> pyexn" where
  "TypeError m = PyExn [''TypeError'', ''Exception'', ''BaseException''] m"

definition KeyError :: "string \<Rightarrow> pyexn" where
  "KeyError m = PyExn [''KeyError'', ''LookupError'', ''Exception'', ''BaseException''] m"

definition EOFError :: "string \<Rightarrow> pyexn" where
  "EOFError m = PyExn [''EOFError'', ''Exception'', ''BaseException''] m"

definition OverflowError :: "string \<Rightarrow> pyexn" where
  "OverflowError m =
     PyExn [''OverflowError'', ''ArithmeticError'', ''Exception'', ''BaseException''] m"

text \<open>
  A statement or call either returns a value, raises an exception, or leaves the process
  through \<^verbatim>\<open>exit(n)\<close>.
\<close>

datatype 'a result = Returns 'a | Raises pyexn | Exits nat

definition quoted :: "string \<Rightarrow> string" where
  "quoted s = [CHR 0x27] @ s @ [CHR 0x27]"

subsection \<open>\<^verbatim>\<open>datetime\<close> and \<^verbatim>\<open>timedelta(days=n)\<close>\<close>

text \<open>
  A \<^verbatim>\<open>datetime\<close> is its proleptic Gregorian ordinal (day 1 is 0001-01-01) and the
  microseconds since midnight. Subtracting a \<^verbatim>\<open>timedelta\<close> of whole days moves
  the ordinal and raises \<^verbatim>\<open>OverflowError\<close> outside the years 1 to 9999.
\<close>

datatype datetime = Datetime (toordinal: int) (day_microseconds: nat)

definition MAXORDINAL :: int where
  "MAXORDINAL = 3652059"

definition sub_days :: "datetime \<Rightarrow> int \<Rightarrow> datetime result" where
  "sub_days d n =
     (let days = toordinal d - n
      in if 0 < days \<and> days \<le> MAXORDINAL
         then Returns (Datetime days (day_microseconds d))
         else Raises (OverflowError ''date value out of range''))"

subsection \<open>Classes, modules and the collaborators\<close>

text \<open>
  A class object carries its \<^verbatim>\<open>__name__\<close> and \<^verbatim>\<open>__module__\<close>. A module has
  its \<^verbatim>\<open>__name__\<close> and its namespace, the bindings in the order in which the module
  body made them.
\<close>

datatype pyclass = PyClass (cls_name: string) (cls_module: string)

datatype pyobj = ClassObj pyclass | OtherObj string

record pymodule =
  mod_name :: string
  mod_dict :: "(string \<times> pyobj) list"

type_synonym config = "(string \<times> string) list"

datatype broker_connection = InteractiveBrokers config | Ccxt config

datatype trading_fee = TradingFee (percent_fee: real)

record backtest_call =
  datasource_class :: string
  backtesting_start :: datetime
  backtesting_end :: datetime
  polygon_api_key :: string
  polygon_has_paid_subscription :: bool
  risk_free_rate :: real
  buy_trading_fees :: "trading_fee list"
  sell_trading_fees :: "trading_fee list"
  logfile :: string
  parameters :: "(string \<times> string) list"

text \<open>
  What the process does to the outside is a list of events, in order: text written by
  \<^verbatim>\<open>print\<close>, the prompt of \<^verbatim>\<open>input\<close>, the calls into lumibot (the live trader,
  the broker connectors, the strategy class and its \<^verbatim>\<open>backtest\<close>), and the
  traceback the interpreter writes for an exception nobody caught.
\<close>

datatype event =
    Print string
  | Input string
  | Trader_init
  | Broker_init broker_connection
  | Strategy_init pyclass broker_connection
  | Trader_add_strategy pyclass broker_connection
  | Trader_run_all
  | Backtest pyclass backtest_call
  | Traceback pyexn

text \<open>
  The environment of one run: the clock read by \<^verbatim>\<open>datetime.now()\<close>, the line that
  \<^verbatim>\<open>input\<close> reads (\<open>None\<close> at end of file), what the import system does with an
  absolute module name, and the three dictionaries of the \<^verbatim>\<open>credentials\<close>
  module, which is not part of the repository.
\<close>

record env =
  now :: datetime
  stdin_line :: "string option"
  importer :: "string \<Rightarrow> pymodule result"
  INTERACTIVE_BROKERS_CONFIG :: config
  KRAKEN_CONFIG :: config
  POLYGON_CONFIG :: config

section \<open>The broker selector\<close>

text \<open>
  \<^verbatim>\<open>configure_broker(broker_choice)\<close>: string comparison against \<^verbatim>\<open>'IB'\<close> and
  \<^verbatim>\<open>'Kraken'\<close>, the connector built from the matching credentials, and
  \<^verbatim>\<open>ValueError\<close> otherwise.
\<close>

definition configure_broker :: "env \<Rightarrow> string \<Rightarrow> event list \<times> broker_connection result" where
  "configure_broker e broker_choice =
     (if broker_choice = ''IB'' then
        (let b = InteractiveBrokers (INTERACTIVE_BROKERS_CONFIG e)
         in ([Broker_init b], Returns b))
      else if broker_choice = ''Kraken'' then
        (let b = Ccxt (KRAKEN_CONFIG e)
         in ([Broker_init b], Returns b))
      else
        ([], Raises (ValueError (''Invalid broker choice. Choose '' @ quoted ''IB''
               @ '' for Interactive Brokers or '' @ quoted ''Kraken'' @ ''.''))))"

text \<open>
  A call binds the positional arguments to the one parameter \<^verbatim>\<open>broker_choice\<close>
  before the body runs; with any other number of arguments the call itself raises
  \<^verbatim>\<open>TypeError\<close>.
\<close>

definition call_configure_broker ::
  "env \<Rightarrow> string list \<Rightarrow> event list \<times> broker_connection result" where
  "call_configure_broker e args =
     (case args of
        [] \<Rightarrow> ([], Raises (TypeError (''configure_broker() missing 1 required positional ''
                 @ ''argument: '' @ quoted ''broker_choice'')))
      | [broker_choice] \<Rightarrow> configure_broker e broker_choice
      | _ \<Rightarrow> ([], Raises (TypeError
                 ''configure_broker() takes 1 positional argument but more were given'')))"

section \<open>The dispatcher\<close>

text \<open>\<^verbatim>\<open>str.lower()\<close> on code points below 256.\<close>

definition lower_char :: "char \<Rightarrow> char" where
  "lower_char c =
     (let n = (of_char c :: nat)
      in if (65 \<le> n \<and> n \<le> 90) \<or> (192 \<le> n \<and> n \<le> 222 \<and> n \<noteq> 215)
         then char_of (n + 32) else c)"

definition lower :: "string \<Rightarrow> string" where
  "lower s = map lower_char s"

text \<open>
  Lines 62 to 69: yesterday, one year before yesterday, and the two bounds. A
  \<^verbatim>\<open>datetime\<close> is always true and \<^verbatim>\<open>None\<close> is false, so
  \<^verbatim>\<open>start_date if start_date else d\<close> is a case on the option.
\<close>

definition backtest_window ::
  "datetime \<Rightarrow> datetime option \<Rightarrow> datetime option \<Rightarrow> (datetime \<times> datetime) result" where
  "backtest_window clock start_date end_date =
     (case sub_days clock 1 of
        Raises x \<Rightarrow> Raises x
      | Exits n \<Rightarrow> Exits n
      | Returns yesterday \<Rightarrow>
          (case sub_days yesterday 365 of
             Raises x \<Rightarrow> Raises x
           | Exits n \<Rightarrow> Exits n
           | Returns one_year_from_yesterday \<Rightarrow>
               Returns (case start_date of Some d \<Rightarrow> d | None \<Rightarrow> one_year_from_yesterday,
                        case end_date of Some d \<Rightarrow> d | None \<Rightarrow> yesterday)))"

text \<open>
  \<^verbatim>\<open>run_strategy\<close>. The global \<^verbatim>\<open>module_name\<close>, which the script binds before
  the call and the backtest branch reads for the log file, is the second argument. The
  calls into lumibot are recorded as events and taken to return.
\<close>

definition run_strategy ::
  "env \<Rightarrow> string \<Rightarrow> pyclass \<Rightarrow> bool \<Rightarrow> string \<Rightarrow> datetime option \<Rightarrow> datetime option
     \<Rightarrow> event list \<times> unit result" where
  "run_strategy e module_name strategy_class is_live broker_choice start_date end_date =
     (if is_live then
        (let t1 = [Print (''Configured to run in live mode with broker: '' @ broker_choice),
                   Input ''Do you want to proceed? (yes/no): '']
         in case stdin_line e of
              None \<Rightarrow> (t1, Raises (EOFError ''EOF when reading a line''))
            | Some line \<Rightarrow>
                (let confirm = lower line
                 in if confirm \<noteq> ''yes'' then
                      (t1 @ [Print ''Operation cancelled.''], Returns ())
                    else
                      (let t2 = t1 @ [Trader_init]
                       in case call_configure_broker e [] of
                            (t3, Raises x) \<Rightarrow> (t2 @ t3, Raises x)
                          | (t3, Exits n) \<Rightarrow> (t2 @ t3, Exits n)
                          | (t3, Returns broker) \<Rightarrow>
                              (t2 @ t3 @ [Strategy_init strategy_class broker,
                                          Trader_add_strategy strategy_class broker,
                                          Trader_run_all],
                               Returns ()))))
      else
        (case backtest_window (now e) start_date end_date of
           Raises x \<Rightarrow> ([], Raises x)
         | Exits n \<Rightarrow> ([], Exits n)
         | Returns (backtesting_start', backtesting_end') \<Rightarrow>
             (let trading_fee = TradingFee 0.005;
                  risk_free_rate' = 5.233;
                  t1 = [Print ''Starting Backtest...'']
              in case map_of (POLYGON_CONFIG e) ''API_KEY'' of
                   None \<Rightarrow> (t1, Raises (KeyError (quoted ''API_KEY'')))
                 | Some api_key \<Rightarrow>
                     (t1 @ [Backtest strategy_class
                              \<lparr> datasource_class = ''PolygonDataBacktesting'',
                                backtesting_start = backtesting_start',
                                backtesting_end = backtesting_end',
                                polygon_api_key = api_key,
                                polygon_has_paid_subscription = True,
                                risk_free_rate = risk_free_rate',
                                buy_trading_fees = [trading_fee],
                                sell_trading_fees = [trading_fee],
                                logfile = ''logs/'' @ module_name @ ''.log'',
                                parameters = [] \<rparr>],
                      Returns ()))))"

section \<open>The strategy resolver\<close>

text \<open>
  \<^verbatim>\<open>inspect.getmembers(module, predicate)\<close>: the names of \<^verbatim>\<open>dir(module)\<close>, which
  are the keys of the namespace in sorted order, each with its value, kept when the
  predicate holds, and the pairs sorted by name once more before they are returned.
\<close>

definition isclass :: "pyobj \<Rightarrow> bool" where
  "isclass obj = (case obj of ClassObj c \<Rightarrow> True | OtherObj d \<Rightarrow> False)"

definition dir_module :: "pymodule \<Rightarrow> string list" where
  "dir_module m = sort (remdups (map fst (mod_dict m)))"

definition getattr_module :: "pymodule \<Rightarrow> string \<Rightarrow> pyobj option" where
  "getattr_module m key = map_of (mod_dict m) key"

definition getmembers :: "pymodule \<Rightarrow> (pyobj \<Rightarrow> bool) \<Rightarrow> (string \<times> pyobj) list" where
  "getmembers m predicate =
     sort_key fst
       (List.map_filter
          (\<lambda>key. case getattr_module m key of
                    None \<Rightarrow> None
                  | Some v \<Rightarrow> if predicate v then Some (key, v) else None)
          (dir_module m))"

text \<open>
  \<^verbatim>\<open>find_strategy_class\<close>: the loop over the members returns the first class whose
  \<^verbatim>\<open>__module__\<close> is the module's \<^verbatim>\<open>__name__\<close>; \<open>None\<close> is Python's
  \<^verbatim>\<open>None\<close>.
\<close>

fun first_own_class :: "string \<Rightarrow> (string \<times> pyobj) list \<Rightarrow> pyclass option" where
  "first_own_class mname [] = None"
| "first_own_class mname ((name, obj) # rest) =
     (case obj of
        ClassObj c \<Rightarrow> if cls_module c = mname then Some c else first_own_class mname rest
      | OtherObj d \<Rightarrow> first_own_class mname rest)"

definition find_strategy_class :: "pymodule \<Rightarrow> pyclass option" where
  "find_strategy_class m = first_own_class (mod_name m) (getmembers m isclass)"

text \<open>
  \<^verbatim>\<open>importlib.import_module(name)\<close> with no package: a relative name is a
  \<^verbatim>\<open>TypeError\<close>, the empty name a \<^verbatim>\<open>ValueError\<close>, and any other name goes to
  the import system.
\<close>

definition import_module :: "env \<Rightarrow> string \<Rightarrow> pymodule result" where
  "import_module e name =
     (if name \<noteq> [] \<and> hd name = CHR ''.'' then
        Raises (TypeError (''the '' @ quoted ''package'' @ '' argument is required to ''
                  @ ''perform a relative import for '' @ quoted name))
      else if name = [] then Raises (ValueError ''Empty module name'')
      else importer e name)"

text \<open>
  The \<^verbatim>\<open>try\<close> block of the script: import, class lookup, \<^verbatim>\<open>ImportError\<close> when
  there is no class, and the handler that prints the message and calls \<^verbatim>\<open>exit(1)\<close>.
  The handler catches \<^verbatim>\<open>ImportError\<close> and its subclasses only.
\<close>

definition import_error_handler :: "pyexn \<Rightarrow> event list \<times> pyclass result" where
  "import_error_handler x = ([Print (''Error importing strategy: '' @ exn_msg x)], Exits 1)"

definition resolve_strategy :: "env \<Rightarrow> string \<Rightarrow> event list \<times> pyclass result" where
  "resolve_strategy e module_name =
     (case import_module e module_name of
        Raises x \<Rightarrow>
          if isinstance_exn x ''ImportError'' then import_error_handler x else ([], Raises x)
      | Exits n \<Rightarrow> ([], Exits n)
      | Returns strategy_module \<Rightarrow>
          (case find_strategy_class strategy_module of
             None \<Rightarrow>
               import_error_handler
                 (ImportError (''No strategy class found in the module '' @ module_name @ ''.''))
           | Some strategy_class \<Rightarrow> ([], Returns strategy_class)))"

section \<open>Date arguments\<close>

text \<open>
  \<^verbatim>\<open>datetime.strptime(s, '%Y-%m-%d')\<close>. The format compiles to the regular expression
  \<^verbatim>\<open>(?P<Y>\d\d\d\d)-(?P<m>1[0-2]|0[1-9]|[1-9])-(?P<d>3[0-1]|[1-2]\d|0[1-9]|[1-9]| [1-9])\<close>,
  matched at the start of the string. A matcher returns every way in which it matches a
  prefix, in the order in which the backtracking engine tries them, so the match found is
  the first element.
\<close>

definition is_digit :: "char \<Rightarrow> bool" where
  "is_digit c = (CHR ''0'' \<le> c \<and> c \<le> CHR ''9'')"

definition in_range :: "char \<Rightarrow> char \<Rightarrow> char \<Rightarrow> bool" where
  "in_range lo hi c = (lo \<le> c \<and> c \<le> hi)"

fun re_Y :: "string \<Rightarrow> (string \<times> string) list" where
  "re_Y (a # b # c # d # rest) =
     (if is_digit a \<and> is_digit b \<and> is_digit c \<and> is_digit d then [([a, b, c, d], rest)] else [])"
| "re_Y s = []"

fun re_two :: "(char \<Rightarrow> bool) \<Rightarrow> (char \<Rightarrow> bool) \<Rightarrow> string \<Rightarrow> (string \<times> string) list" where
  "re_two p q (a # b # rest) = (if p a \<and> q b then [([a, b], rest)] else [])"
| "re_two p q s = []"

fun re_one :: "(char \<Rightarrow> bool) \<Rightarrow> string \<Rightarrow> (string \<times> string) list" where
  "re_one p (a # rest) = (if p a then [([a], rest)] else [])"
| "re_one p s = []"

fun re_dash :: "string \<Rightarrow> string list" where
  "re_dash (a # rest) = (if a = CHR ''-'' then [rest] else [])"
| "re_dash s = []"

definition re_m :: "string \<Rightarrow> (string \<times> string) list" where
  "re_m s =
     re_two (\<lambda>c. c = CHR ''1'') (in_range CHR ''0'' CHR ''2'') s
     @ re_two (\<lambda>c. c = CHR ''0'') (in_range CHR ''1'' CHR ''9'') s
     @ re_one (in_range CHR ''1'' CHR ''9'') s"

definition re_d :: "string \<Rightarrow> (string \<times> string) list" where
  "re_d s =
     re_two (\<lambda>c. c = CHR ''3'') (in_range CHR ''0'' CHR ''1'') s
     @ re_two (in_range CHR ''1'' CHR ''2'') is_digit s
     @ re_two (\<lambda>c. c = CHR ''0'') (in_range CHR ''1'' CHR ''9'') s
     @ re_one (in_range CHR ''1'' CHR ''9'') s
     @ re_two (\<lambda>c. c = CHR '' '') (in_range CHR ''1'' CHR ''9'') s"

definition format_regex_matches :: "string \<Rightarrow> ((string \<times> string \<times> string) \<times> string) list" where
  "format_regex_matches s =
     concat (map (\<lambda>(Y, r1).
       concat (map (\<lambda>r2.
         concat (map (\<lambda>(m, r3).
           concat (map (\<lambda>r4.
             map (\<lambda>(d, r5). ((Y, m, d), r5)) (re_d r4))
           (re_dash r3)))
         (re_m r2)))
       (re_dash r1)))
     (re_Y s))"

definition format_regex_match :: "string \<Rightarrow> ((string \<times> string \<times> string) \<times> string) option" where
  "format_regex_match s = (case format_regex_matches s of [] \<Rightarrow> None | found # others \<Rightarrow> Some found)"

text \<open>
  \<^verbatim>\<open>int\<close> on a group of the match: decimal digits after optional blanks.
\<close>

definition digit_value :: "char \<Rightarrow> nat" where
  "digit_value c = of_char c - 48"

definition int_of_group :: "string \<Rightarrow> nat" where
  "int_of_group s = foldl (\<lambda>n c. 10 * n + digit_value c) 0 (dropWhile (\<lambda>c. c = CHR '' '') s)"

text \<open>
  The calendar of \<^verbatim>\<open>datetime\<close>: leap years, month lengths and the ordinal of a date.
  Entry 0 of the table of month lengths is a placeholder that is never read (months are
  checked to lie between 1 and 12 before the table is used).
\<close>

definition is_leap :: "nat \<Rightarrow> bool" where
  "is_leap y = (y mod 4 = 0 \<and> (y mod 100 \<noteq> 0 \<or> y mod 400 = 0))"

definition DAYS_IN_MONTH :: "nat list" where
  "DAYS_IN_MONTH = [0, 31, 28, 31, 30, 31, 30, 31, 31, 30, 31, 30, 31]"

definition days_in_month :: "nat \<Rightarrow> nat \<Rightarrow> nat" where
  "days_in_month y m = (if m = 2 \<and> is_leap y then 29 else DAYS_IN_MONTH ! m)"

definition days_before_year :: "nat \<Rightarrow> nat" where
  "days_before_year year = (let y = year - 1 in y * 365 + y div 4 - y div 100 + y div 400)"

definition days_before_month :: "nat \<Rightarrow> nat \<Rightarrow> nat" where
  "days_before_month y m =
     sum_list (take (m - 1) (drop 1 DAYS_IN_MONTH)) + (if m > 2 \<and> is_leap y then 1 else 0)"

definition ymd2ord :: "nat \<Rightarrow> nat \<Rightarrow> nat \<Rightarrow> nat" where
  "ymd2ord y m d = days_before_year y + days_before_month y m + d"

definition datetime_of_date :: "nat \<Rightarrow> nat \<Rightarrow> nat \<Rightarrow> datetime result" where
  "datetime_of_date y m d =
     (if y < 1 \<or> 9999 < y then Raises (ValueError ''year is out of range'')
      else if m < 1 \<or> 12 < m then Raises (ValueError ''month must be in 1..12'')
      else if d < 1 \<or> days_in_month y m < d then
        Raises (ValueError ''day is out of range for month'')
      else Returns (Datetime (int (ymd2ord y m d)) 0))"

definition strptime :: "string \<Rightarrow> datetime result" where
  "strptime data_string =
     (case format_regex_match data_string of
        None \<Rightarrow>
          Raises (ValueError (''time data '' @ quoted data_string @ '' does not match format ''
                    @ quoted ''%Y-%m-%d''))
      | Some ((Y, m, d), rest) \<Rightarrow>
          if rest \<noteq> [] then Raises (ValueError (''unconverted data remains: '' @ rest))
          else datetime_of_date (int_of_group Y) (int_of_group m) (int_of_group d))"

text \<open>
  \<^verbatim>\<open>datetime.strptime(a, '%Y-%m-%d') if a else None\<close>: an argument that is absent
  (\<^verbatim>\<open>None\<close>) or the empty string is false and gives \<^verbatim>\<open>None\<close>.
\<close>

definition parse_date :: "string option \<Rightarrow> datetime option result" where
  "parse_date a =
     (case a of
        None \<Rightarrow> Returns None
      | Some s \<Rightarrow>
          if s = [] then Returns None
          else (case strptime s of
                  Returns d \<Rightarrow> Returns (Some d)
                | Raises x \<Rightarrow> Raises x
                | Exits n \<Rightarrow> Exits n))"

section \<open>The script\<close>

text \<open>
  \<^verbatim>\<open>s.rsplit(sep, 1)\<close> for a separator of one character: the string cut at the last
  occurrence of the separator, or the string alone when there is none.
\<close>

fun rsplit1 :: "char \<Rightarrow> string \<Rightarrow> string list" where
  "rsplit1 sep [] = [[]]"
| "rsplit1 sep (c # cs) =
     (case rsplit1 sep cs of
        [h, t] \<Rightarrow> [c # h, t]
      | _ \<Rightarrow> if c = sep then [[], cs] else [c # cs])"

text \<open>The namespace that \<^verbatim>\<open>argparse\<close> returns.\<close>

record args =
  strategy_file :: string
  live :: bool
  broker :: string
  start :: "string option"
  end' :: "string option"

definition main :: "env \<Rightarrow> args \<Rightarrow> event list \<times> unit result" where
  "main e a =
     (let module_name = hd (rsplit1 CHR ''.'' (strategy_file a))
      in case resolve_strategy e module_name of
           (t, Raises x) \<Rightarrow> (t, Raises x)
         | (t, Exits n) \<Rightarrow> (t, Exits n)
         | (t, Returns strategy_class) \<Rightarrow>
             (case parse_date (start a) of
                Raises x \<Rightarrow> (t, Raises x)
              | Exits n \<Rightarrow> (t, Exits n)
              | Returns start_date \<Rightarrow>
                  (case parse_date (end' a) of
                     Raises x \<Rightarrow> (t, Raises x)
                   | Exits n \<Rightarrow> (t, Exits n)
                   | Returns end_date \<Rightarrow>
                       (case run_strategy e module_name strategy_class (live a) (broker a)
                               start_date end_date of
                          (t', r) \<Rightarrow> (t @ t', r)))))"

text \<open>
  The interpreter around the script: on an exception that nobody caught it writes the
  traceback and the exit status is 1; \<^verbatim>\<open>exit(n)\<close> gives status \<open>n\<close>; a script that
  runs to its end gives status 0.
\<close>

definition python_process :: "env \<Rightarrow> args \<Rightarrow> event list \<times> nat" where
  "python_process e a =
     (case main e a of
        (t, Returns u) \<Rightarrow> (t, 0)
      | (t, Exits n) \<Rightarrow> (t, n)
      | (t, Raises x) \<Rightarrow> (t @ [Traceback x], 1))"

section \<open>Notions of the specification\<close>

text \<open>
  The responses that match the affirmative token \<^verbatim>\<open>yes\<close> when case is ignored.
\<close>

definition affirmative_responses :: "string list" where
  "affirmative_responses =
     [''yes'', ''yeS'', ''yEs'', ''yES'', ''Yes'', ''YeS'', ''YEs'', ''YES'']"

text \<open>
  A valid \<^verbatim>\<open>datetime\<close>: an ordinal between 0001-01-01 and 9999-12-31 and a time
  of day. \<open>days_before d n\<close> is the moment \<open>n\<close> days before \<open>d\<close> at the same time of day.
\<close>

definition valid_datetime :: "datetime \<Rightarrow> bool" where
  "valid_datetime d =
     (1 \<le> toordinal d \<and> toordinal d \<le> MAXORDINAL \<and> day_microseconds d < 86400000000)"

definition days_before :: "datetime \<Rightarrow> int \<Rightarrow> datetime" where
  "days_before d n = Datetime (toordinal d - n) (day_microseconds d)"

text \<open>
  The first class of a module in declaration order that the module defines itself: the
  loop of the resolver run over the namespace as the module body filled it.
\<close>

definition first_declared_class :: "pymodule \<Rightarrow> pyclass option" where
  "first_declared_class m = first_own_class (mod_name m) (mod_dict m)"

text \<open>
  The sessions of a run, read off its events: a live session is a broker connection
  constructed or the live runner started, a backtest session is a call of the
  backtest engine.
\<close>

fun is_broker_init :: "event \<Rightarrow> bool" where
  "is_broker_init (Broker_init b) = True"
| "is_broker_init ev = False"

fun is_run_all :: "event \<Rightarrow> bool" where
  "is_run_all Trader_run_all = True"
| "is_run_all ev = False"

fun is_backtest :: "event \<Rightarrow> bool" where
  "is_backtest (Backtest c b) = True"
| "is_backtest ev = False"

definition live_session :: "event list \<Rightarrow> bool" where
  "live_session t = (list_ex is_broker_init t \<or> list_ex is_run_all t)"

definition backtest_session :: "event list \<Rightarrow> bool" where
  "backtest_session t = list_ex is_backtest t"

text \<open>
  A well-formed \<^verbatim>\<open>YYYY-MM-DD\<close> string: four digits, two digits and two digits
  between dashes, naming a day of the calendar.
\<close>

definition valid_date :: "nat \<Rightarrow> nat \<Rightarrow> nat \<Rightarrow> bool" where
  "valid_date y m d = (1 \<le> y \<and> y \<le> 9999 \<and> 1 \<le> m \<and> m \<le> 12 \<and> 1 \<le> d \<and> d \<le> days_in_month y m)"

definition well_formed_ymd :: "string \<Rightarrow> bool" where
  "well_formed_ymd s =
     (length s = 10 \<and> s ! 4 = CHR ''-'' \<and> s ! 7 = CHR ''-''
      \<and> list_all is_digit (take 4 s) \<and> list_all is_digit (take 2 (drop 5 s))
      \<and> list_all is_digit (drop 8 s)
      \<and> valid_date (int_of_group (take 4 s)) (int_of_group (take 2 (drop 5 s)))
           (int_of_group (drop 8 s)))"

text \<open>
  The strings that the parser takes: the fields between the dashes are a year of four
  digits, a month from 1 to 12 with or without a leading zero, and a day from 1 to 31
  with a leading zero, a leading blank or neither; the three name a day of the calendar.
\<close>

fun split_dash :: "string \<Rightarrow> string list" where
  "split_dash [] = [[]]"
| "split_dash (c # cs) =
     (if c = CHR ''-'' then [] # split_dash cs
      else (case split_dash cs of [] \<Rightarrow> [[c]] | f # fs \<Rightarrow> (c # f) # fs))"

fun month_field :: "string \<Rightarrow> bool" where
  "month_field [a] = in_range CHR ''1'' CHR ''9'' a"
| "month_field [a, b] =
     ((a = CHR ''0'' \<and> in_range CHR ''1'' CHR ''9'' b)
      \<or> (a = CHR ''1'' \<and> in_range CHR ''0'' CHR ''2'' b))"
| "month_field s = False"

fun day_field :: "string \<Rightarrow> bool" where
  "day_field [a] = in_range CHR ''1'' CHR ''9'' a"
| "day_field [a, b] =
     (((a = CHR ''0'' \<or> a = CHR '' '') \<and> in_range CHR ''1'' CHR ''9'' b)
      \<or> (in_range CHR ''1'' CHR ''2'' a \<and> is_digit b)
      \<or> (a = CHR ''3'' \<and> in_range CHR ''0'' CHR ''1'' b))"
| "day_field s = False"

definition accepted_ymd :: "string \<Rightarrow> bool" where
  "accepted_ymd s =
     (case split_dash s of
        [Y, M, D] \<Rightarrow>
          length Y = 4 \<and> list_all is_digit Y \<and> month_field M \<and> day_field D
          \<and> valid_date (int_of_group Y) (int_of_group M) (int_of_group D)
      | _ \<Rightarrow> False)"

definition rejected_date_arg :: "string option \<Rightarrow> bool" where
  "rejected_date_arg a = (case a of None \<Rightarrow> False | Some s \<Rightarrow> s \<noteq> [] \<and> \<not> accepted_ymd s)"

section \<open>A sample run\<close>

text \<open>
  A strategy file \<^verbatim>\<open>my_strategy.py\<close> that imports lumibot's base class and defines
  one strategy, and an environment in which it can be imported.
\<close>

definition my_strategy_module :: pymodule where
  "my_strategy_module =
     \<lparr> mod_name = ''my_strategy'',
       mod_dict = [(''Strategy'', ClassObj (PyClass ''Strategy'' ''lumibot.strategies.strategy'')),
                   (''MyStrategy'', ClassObj (PyClass ''MyStrategy'' ''my_strategy''))] \<rparr>"

definition sample_env :: env where
  "sample_env =
     \<lparr> now = Datetime 740000 34200000000,
       stdin_line = Some ''no'',
       importer = (\<lambda>name. if name = ''my_strategy'' then Returns my_strategy_module
                          else Raises (ModuleNotFoundError (''No module named '' @ quoted name))),
       INTERACTIVE_BROKERS_CONFIG = [(''SOCKET_PORT'', ''7497'')],
       KRAKEN_CONFIG = [(''exchange_id'', ''kraken'')],
       POLYGON_CONFIG = [(''API_KEY'', ''secret'')] \<rparr>"

definition sample_args :: args where
  "sample_args =
     \<lparr> strategy_file = ''my_strategy.py'', live = False, broker = ''Kraken'',
       start = None, end' = None \<rparr>"

text \<open>
  A module that defines two classes, \<^verbatim>\<open>Zeta\<close> before \<^verbatim>\<open>Alpha\<close>.
\<close>

definition two_class_module :: pymodule where
  "two_class_module =
     \<lparr> mod_name = ''pair'',
       mod_dict = [(''Strategy'', ClassObj (PyClass ''Strategy'' ''lumibot.strategies.strategy'')),
                   (''Zeta'', ClassObj (PyClass ''Zeta'' ''pair'')),
                   (''Alpha'', ClassObj (PyClass ''Alpha'' ''pair''))] \<rparr>"

section \<open>Auxiliary facts\<close>

subsection \<open>Lower case\<close>

lemma lower_char_cases:
  assumes "lower_char a = c" "(of_char c :: nat) < 192" 
  shows "a = c \<or> (65 \<le> (of_char a :: nat) \<and> (of_char a :: nat) \<le> 90 \<and> of_char c = (of_char a :: nat) + 32)"
proof (cases "a = c")
  case True then show ?thesis by simp
next
  case False
  let ?n = "of_char a :: nat"
  have n256: "?n < 256" by simp
  from False assms(1) have cond: "(65 \<le> ?n \<and> ?n \<le> 90) \<or> (192 \<le> ?n \<and> ?n \<le> 222 \<and> ?n \<noteq> 215)"
    and eq: "char_of (?n + 32) = c"
    by (auto simp add: lower_char_def Let_def split: if_splits)
  from eq have "(of_char (char_of (?n + 32) :: char) :: nat) = of_char c" by simp
  then have m: "(?n + 32) mod 256 = (of_char c :: nat)" by simp
  from cond show ?thesis
  proof
    assume r: "65 \<le> ?n \<and> ?n \<le> 90"
    then have "(?n + 32) mod 256 = ?n + 32" by simp
    with m r show ?thesis by simp
  next
    assume r: "192 \<le> ?n \<and> ?n \<le> 222 \<and> ?n \<noteq> 215"
    then have "(?n + 32) mod 256 = ?n + 32" by simp
    with m r assms(2) show ?thesis by simp
  qed
qed

lemma char_from_code: "(of_char a :: nat) = k \<Longrightarrow> a = char_of k"
  by auto

lemma char_of_yes:
  "char_of (89::nat) = CHR ''Y''" "char_of (69::nat) = CHR ''E''" "char_of (83::nat) = CHR ''S''"
  "char_of (121::nat) = CHR ''y''" "char_of (101::nat) = CHR ''e''" "char_of (115::nat) = CHR ''s''"
  by (simp_all add: char_of_eq_iff)


lemma lower_char_y: "lower_char a = CHR ''y'' \<Longrightarrow> a = CHR ''y'' \<or> a = CHR ''Y''"
  using lower_char_cases [of a "CHR ''y''"] char_from_code [of a 89] by (auto simp add: char_of_yes)

lemma lower_char_e: "lower_char a = CHR ''e'' \<Longrightarrow> a = CHR ''e'' \<or> a = CHR ''E''"
  using lower_char_cases [of a "CHR ''e''"] char_from_code [of a 69] by (auto simp add: char_of_yes)

lemma lower_char_s: "lower_char a = CHR ''s'' \<Longrightarrow> a = CHR ''s'' \<or> a = CHR ''S''"
  using lower_char_cases [of a "CHR ''s''"] char_from_code [of a 83] by (auto simp add: char_of_yes)

lemma lower_yes_iff: "lower line = ''yes'' \<longleftrightarrow> line \<in> set affirmative_responses"
proof
  assume "lower line = ''yes''"
  then obtain a b c where l: "line = [a, b, c]" and
    "lower_char a = CHR ''y''" "lower_char b = CHR ''e''" "lower_char c = CHR ''s''"
    by (auto simp add: lower_def map_eq_Cons_conv)
  then show "line \<in> set affirmative_responses"
    using lower_char_y [of a] lower_char_e [of b] lower_char_s [of c]
    by (auto simp add: affirmative_responses_def)
next
  assume "line \<in> set affirmative_responses"
  then show "lower line = ''yes''"
    by (auto simp add: affirmative_responses_def lower_def lower_char_def char_of_yes)
qed

subsection \<open>The script once the strategy is resolved\<close>

lemma resolve_strategy_Returns_trace:
  "resolve_strategy e mn = (t, Returns c) \<Longrightarrow> t = []"
  by (auto simp add: resolve_strategy_def import_error_handler_def
      split: result.splits option.splits if_splits)

lemma main_resolved:
  assumes "resolve_strategy e (hd (rsplit1 CHR ''.'' (strategy_file a))) = (t, Returns c)"
    and "parse_date (start a) = Returns s" and "parse_date (end' a) = Returns u"
  shows "main e a
           = run_strategy e (hd (rsplit1 CHR ''.'' (strategy_file a))) c (live a) (broker a) s u"
proof -
  from assms(1) have "t = []" by (rule resolve_strategy_Returns_trace)
  with assms show ?thesis
    by (simp add: main_def Let_def split: prod.splits)
qed

lemma run_strategy_cancelled:
  assumes "stdin_line e = Some line" and "line \<notin> set affirmative_responses"
  shows "run_strategy e module_name strategy_class True broker_choice start_date end_date
           = ([Print (''Configured to run in live mode with broker: '' @ broker_choice),
               Input ''Do you want to proceed? (yes/no): '',
               Print ''Operation cancelled.''], Returns ())"
proof -
  from assms(2) have "lower line \<noteq> ''yes''" by (simp add: lower_yes_iff)
  with assms(1) show ?thesis by (simp add: run_strategy_def Let_def)
qed

lemma sample_module_name: "hd (rsplit1 CHR ''.'' ''my_strategy.py'') = ''my_strategy''"
  by simp

lemma sample_find_class:
  "find_strategy_class my_strategy_module = Some (PyClass ''MyStrategy'' ''my_strategy'')"
  by (simp add: find_strategy_class_def getmembers_def dir_module_def getattr_module_def
      isclass_def List.map_filter_def my_strategy_module_def)

lemma sample_resolve:
  "resolve_strategy (sample_env\<lparr>stdin_line := l\<rparr>) ''my_strategy'' = ([], Returns (PyClass ''MyStrategy'' ''my_strategy''))"
  by (simp add: resolve_strategy_def import_module_def sample_env_def sample_find_class)

subsection \<open>The run window and the backtest call\<close>

lemma sub_days_in_range:
  "0 < toordinal d - n \<Longrightarrow> toordinal d - n \<le> MAXORDINAL \<Longrightarrow> sub_days d n = Returns (days_before d n)"
  by (simp add: sub_days_def days_before_def Let_def)

lemma backtest_window_in_range:
  assumes "valid_datetime clock" and "366 < toordinal clock"
  shows "backtest_window clock start_date end_date
           = Returns (case start_date of Some d \<Rightarrow> d | None \<Rightarrow> days_before (days_before clock 1) 365,
                      case end_date of Some d \<Rightarrow> d | None \<Rightarrow> days_before clock 1)"
proof -
  from assms have y: "sub_days clock 1 = Returns (days_before clock 1)"
    by (intro sub_days_in_range) (simp_all add: valid_datetime_def)
  from assms have o: "sub_days (days_before clock 1) 365 = Returns (days_before (days_before clock 1) 365)"
    by (intro sub_days_in_range) (simp_all add: valid_datetime_def days_before_def)
  show ?thesis by (simp add: backtest_window_def y o)
qed

lemma run_strategy_backtest:
  assumes "backtest_window (now e) s u = Returns (bs, be)"
    and "map_of (POLYGON_CONFIG e) ''API_KEY'' = Some k"
  shows "run_strategy e mn c False b s u
           = ([Print ''Starting Backtest...'',
               Backtest c
                 \<lparr> datasource_class = ''PolygonDataBacktesting'',
                   backtesting_start = bs,
                   backtesting_end = be,
                   polygon_api_key = k,
                   polygon_has_paid_subscription = True,
                   risk_free_rate = 5.233,
                   buy_trading_fees = [TradingFee 0.005],
                   sell_trading_fees = [TradingFee 0.005],
                   logfile = ''logs/'' @ mn @ ''.log'',
                   parameters = [] \<rparr>],
              Returns ())"
  using assms by (simp add: run_strategy_def Let_def)

lemma rsplit1_cases:
  "(sep \<notin> set s \<and> rsplit1 sep s = [s])
   \<or> (\<exists>h t. rsplit1 sep s = [h, t] \<and> s = h @ sep # t \<and> sep \<notin> set t)"
proof (induction s)
  case Nil
  then show ?case by simp
next
  case (Cons c cs)
  from Cons.IH show ?case
  proof
    assume "sep \<notin> set cs \<and> rsplit1 sep cs = [cs]"
    then show ?thesis by (cases "c = sep") auto
  next
    assume "\<exists>h t. rsplit1 sep cs = [h, t] \<and> cs = h @ sep # t \<and> sep \<notin> set t"
    then obtain h t where "rsplit1 sep cs = [h, t]" "cs = h @ sep # t" "sep \<notin> set t" by blast
    then have "rsplit1 sep (c # cs) = [c # h, t] \<and> c # cs = (c # h) @ sep # t \<and> sep \<notin> set t"
      by simp
    then show ?thesis by blast
  qed
qed

lemma rsplit1_not_empty: "rsplit1 sep s \<noteq> []"
  using rsplit1_cases [of sep s] by auto

lemma module_name_without_dot:
  "sep \<notin> set s \<Longrightarrow> hd (rsplit1 sep s) = s"
  using rsplit1_cases [of sep s] by auto

lemma module_name_with_dot:
  "sep \<in> set s \<Longrightarrow> \<exists>ext. s = hd (rsplit1 sep s) @ sep # ext \<and> sep \<notin> set ext"
  using rsplit1_cases [of sep s] by auto

subsection \<open>The sample run\<close>

lemma sample_clock: "valid_datetime (now sample_env) \<and> 366 < toordinal (now sample_env)"
  by (simp add: sample_env_def valid_datetime_def MAXORDINAL_def)

lemma sample_api_key: "map_of (POLYGON_CONFIG sample_env) ''API_KEY'' = Some ''secret''"
  by (simp add: sample_env_def)

lemma sample_resolve_args:
  "strategy_file a = ''my_strategy.py''
   \<Longrightarrow> resolve_strategy sample_env (hd (rsplit1 CHR ''.'' (strategy_file a)))
         = ([], Returns (PyClass ''MyStrategy'' ''my_strategy''))"
  using sample_resolve [of "Some ''no''"] by (simp add: sample_env_def)

lemmas strptime_eval =
  strptime_def format_regex_match_def format_regex_matches_def re_m_def re_d_def is_digit_def
  in_range_def datetime_of_date_def int_of_group_def digit_value_def ymd2ord_def
  days_before_year_def days_before_month_def days_in_month_def DAYS_IN_MONTH_def is_leap_def

lemma sample_dates:
  "parse_date (Some ''2024-01-01'') = Returns (Some (Datetime 738886 0))"
  "parse_date (Some ''2024-06-01'') = Returns (Some (Datetime 739038 0))"
  "parse_date None = Returns None"
  by (simp_all add: parse_date_def strptime_eval)

subsection \<open>Members of a module\<close>

lemma set_map_filter_iff:
  "y \<in> set (List.map_filter f xs) \<longleftrightarrow> (\<exists>x \<in> set xs. f x = Some y)"
  by (induction xs) (auto split: option.splits)

lemma set_dir_module: "set (dir_module m) = fst ` set (mod_dict m)"
  by (simp add: dir_module_def)

lemma getmembers_iff:
  "(key, v) \<in> set (getmembers m predicate) \<longleftrightarrow> getattr_module m key = Some v \<and> predicate v"
proof
  assume "(key, v) \<in> set (getmembers m predicate)"
  then show "getattr_module m key = Some v \<and> predicate v"
    by (auto simp add: getmembers_def set_map_filter_iff split: option.splits if_splits)
next
  assume a: "getattr_module m key = Some v \<and> predicate v"
  then have "key \<in> set (dir_module m)"
    by (auto simp add: getattr_module_def set_dir_module dest: map_of_SomeD intro: rev_image_eqI)
  with a show "(key, v) \<in> set (getmembers m predicate)"
    by (auto simp add: getmembers_def set_map_filter_iff intro!: bexI [of _ key])
qed

lemma sorted_getmembers: "sorted (map fst (getmembers m predicate))"
  by (simp add: getmembers_def)

lemma first_own_class_None:
  "first_own_class mname ms = None
     \<longleftrightarrow> (\<forall>n c. (n, ClassObj c) \<in> set ms \<longrightarrow> cls_module c \<noteq> mname)"
  by (induction mname ms rule: first_own_class.induct) (auto split: pyobj.splits)

lemma first_own_class_sorted:
  assumes "sorted (map fst ms)" and "first_own_class mname ms = Some c"
  shows "\<exists>n. (n, ClassObj c) \<in> set ms \<and> cls_module c = mname
             \<and> (\<forall>n' c'. (n', ClassObj c') \<in> set ms \<and> cls_module c' = mname \<longrightarrow> n \<le> n')"
  using assms
proof (induction mname ms rule: first_own_class.induct)
  case (1 mname)
  then show ?case by simp
next
  case (2 mname name obj rest)
  from "2.prems"(1) have le: "\<forall>p \<in> set rest. name \<le> fst p" and srt: "sorted (map fst rest)"
    by simp_all
  show ?case
  proof (cases "\<exists>k. obj = ClassObj k \<and> cls_module k = mname")
    case True
    with "2.prems"(2) have "obj = ClassObj c" and "cls_module c = mname" by auto
    with le have "(name, ClassObj c) \<in> set ((name, obj) # rest) \<and> cls_module c = mname
             \<and> (\<forall>n' c'. (n', ClassObj c') \<in> set ((name, obj) # rest) \<and> cls_module c' = mname \<longrightarrow> name \<le> n')"
      by auto
    then show ?thesis by blast
  next
    case False
    with "2.prems"(2) have r: "first_own_class mname rest = Some c"
      by (auto split: pyobj.splits if_splits)
    have "\<exists>n. (n, ClassObj c) \<in> set rest \<and> cls_module c = mname
             \<and> (\<forall>n' c'. (n', ClassObj c') \<in> set rest \<and> cls_module c' = mname \<longrightarrow> n \<le> n')"
    proof (cases obj)
      case (ClassObj k)
      with False have "cls_module k \<noteq> mname" by simp
      with ClassObj "2.IH"(1) srt r show ?thesis by blast
    next
      case (OtherObj d)
      with "2.IH"(2) srt r show ?thesis by blast
    qed
    then obtain n where n: "(n, ClassObj c) \<in> set rest" "cls_module c = mname"
      "\<forall>n' c'. (n', ClassObj c') \<in> set rest \<and> cls_module c' = mname \<longrightarrow> n \<le> n'" by blast
    with False have "(n, ClassObj c) \<in> set ((name, obj) # rest) \<and> cls_module c = mname
             \<and> (\<forall>n' c'. (n', ClassObj c') \<in> set ((name, obj) # rest) \<and> cls_module c' = mname \<longrightarrow> n \<le> n')"
      by auto
    then show ?thesis by blast
  qed
qed

subsection \<open>Failed resolution\<close>

lemma main_resolution_failed:
  "resolve_strategy e (hd (rsplit1 CHR ''.'' (strategy_file a))) = (t, Raises x)
     \<Longrightarrow> main e a = (t, Raises x)"
  "resolve_strategy e (hd (rsplit1 CHR ''.'' (strategy_file a))) = (t, Exits n)
     \<Longrightarrow> main e a = (t, Exits n)"
  by (simp_all add: main_def Let_def)

subsection \<open>Events of a run\<close>

lemma resolve_strategy_events:
  "resolve_strategy e mn = (t, r)
     \<Longrightarrow> \<not> list_ex is_backtest t \<and> \<not> list_ex is_broker_init t \<and> \<not> list_ex is_run_all t"
  by (auto simp add: resolve_strategy_def import_error_handler_def
      split: result.splits option.splits if_splits)

lemma run_strategy_live_events:
  "\<not> list_ex is_backtest (fst (run_strategy e mn c True b s u))"
  by (auto simp add: run_strategy_def call_configure_broker_def configure_broker_def Let_def
      split: option.splits result.splits prod.splits list.splits if_splits)

lemma run_strategy_backtest_events:
  "\<not> list_ex is_broker_init (fst (run_strategy e mn c False b s u))
   \<and> \<not> list_ex is_run_all (fst (run_strategy e mn c False b s u))"
  by (auto simp add: run_strategy_def Let_def split: option.splits result.splits prod.splits)

lemma main_events:
  "\<exists>t r. resolve_strategy e (hd (rsplit1 CHR ''.'' (strategy_file a))) = (t, r)
     \<and> (fst (main e a) = t
         \<or> (\<exists>c s u. fst (main e a)
               = t @ fst (run_strategy e (hd (rsplit1 CHR ''.'' (strategy_file a)))
                            c (live a) (broker a) s u)))"
proof -
  let ?mn = "hd (rsplit1 CHR ''.'' (strategy_file a))"
  obtain t r where res: "resolve_strategy e ?mn = (t, r)" by (cases "resolve_strategy e ?mn")
  have "fst (main e a) = t
         \<or> (\<exists>c s u. fst (main e a) = t @ fst (run_strategy e ?mn c (live a) (broker a) s u))"
  proof (cases r)
    case (Returns c)
    show ?thesis
    proof (cases "parse_date (start a)")
      case s: (Returns s)
      show ?thesis
      proof (cases "parse_date (end' a)")
        case u: (Returns u)
        obtain t' r' where run: "run_strategy e ?mn c (live a) (broker a) s u = (t', r')"
          by (cases "run_strategy e ?mn c (live a) (broker a) s u")
        with res Returns s u have "fst (main e a) = t @ t'" by (simp add: main_def Let_def)
        with run have "fst (main e a) = t @ fst (run_strategy e ?mn c (live a) (broker a) s u)"
          by simp
        then show ?thesis by blast
      next
        case (Raises x)
        with res Returns s show ?thesis by (simp add: main_def Let_def)
      next
        case (Exits n)
        with res Returns s show ?thesis by (simp add: main_def Let_def)
      qed
    next
      case (Raises x)
      with res Returns show ?thesis by (simp add: main_def Let_def)
    next
      case (Exits n)
      with res Returns show ?thesis by (simp add: main_def Let_def)
    qed
  next
    case (Raises x)
    with res show ?thesis by (simp add: main_def Let_def)
  next
    case (Exits n)
    with res show ?thesis by (simp add: main_def Let_def)
  qed
  with res show ?thesis by blast
qed

lemma python_process_events:
  "fst (python_process e a) = fst (main e a)
   \<or> (\<exists>x. fst (python_process e a) = fst (main e a) @ [Traceback x])"
  by (cases "main e a") (auto simp add: python_process_def split: result.splits)

lemma main_live_no_backtest:
  assumes "live a" shows "\<not> list_ex is_backtest (fst (main e a))"
proof -
  from main_events [of e a] obtain t r where
    r: "resolve_strategy e (hd (rsplit1 CHR ''.'' (strategy_file a))) = (t, r)" and
    m: "fst (main e a) = t
         \<or> (\<exists>c s u. fst (main e a)
               = t @ fst (run_strategy e (hd (rsplit1 CHR ''.'' (strategy_file a)))
                            c (live a) (broker a) s u))"
    by blast
  from resolve_strategy_events [OF r] have t: "\<not> list_ex is_backtest t" by simp
  from m show ?thesis
  proof
    assume "fst (main e a) = t"
    with t show ?thesis by simp
  next
    assume "\<exists>c s u. fst (main e a)
               = t @ fst (run_strategy e (hd (rsplit1 CHR ''.'' (strategy_file a)))
                            c (live a) (broker a) s u)"
    with t assms show ?thesis
      using run_strategy_live_events by auto
  qed
qed

lemma main_backtest_no_live:
  assumes "\<not> live a"
  shows "\<not> list_ex is_broker_init (fst (main e a)) \<and> \<not> list_ex is_run_all (fst (main e a))"
proof -
  from main_events [of e a] obtain t r where
    r: "resolve_strategy e (hd (rsplit1 CHR ''.'' (strategy_file a))) = (t, r)" and
    m: "fst (main e a) = t
         \<or> (\<exists>c s u. fst (main e a)
               = t @ fst (run_strategy e (hd (rsplit1 CHR ''.'' (strategy_file a)))
                            c (live a) (broker a) s u))"
    by blast
  from resolve_strategy_events [OF r]
  have t: "\<not> list_ex is_broker_init t \<and> \<not> list_ex is_run_all t" by simp
  from m show ?thesis
  proof
    assume "fst (main e a) = t"
    with t show ?thesis by simp
  next
    assume "\<exists>c s u. fst (main e a)
               = t @ fst (run_strategy e (hd (rsplit1 CHR ''.'' (strategy_file a)))
                            c (live a) (broker a) s u)"
    with t assms show ?thesis
      using run_strategy_backtest_events by auto
  qed
qed

lemma python_process_sessions:
  "list_ex is_backtest (fst (python_process e a)) = list_ex is_backtest (fst (main e a))"
  "list_ex is_broker_init (fst (python_process e a)) = list_ex is_broker_init (fst (main e a))"
  "list_ex is_run_all (fst (python_process e a)) = list_ex is_run_all (fst (main e a))"
  using python_process_events [of e a] by auto

lemma sample_cancelled_run:
  "python_process sample_env (sample_args\<lparr>live := True\<rparr>)
     = ([Print ''Configured to run in live mode with broker: Kraken'',
         Input ''Do you want to proceed? (yes/no): '',
         Print ''Operation cancelled.''], 0)"
proof -
  let ?a = "sample_args\<lparr>live := True\<rparr>"
  have r: "resolve_strategy sample_env (hd (rsplit1 CHR ''.'' (strategy_file ?a)))
             = ([], Returns (PyClass ''MyStrategy'' ''my_strategy''))"
    by (rule sample_resolve_args) (simp add: sample_args_def)
  have p: "parse_date (start ?a) = Returns None" "parse_date (end' ?a) = Returns None"
    by (simp_all add: sample_args_def parse_date_def)
  have c: "run_strategy sample_env ''my_strategy'' (PyClass ''MyStrategy'' ''my_strategy'') True
             ''Kraken'' None None
           = ([Print (''Configured to run in live mode with broker: '' @ ''Kraken''),
               Input ''Do you want to proceed? (yes/no): '',
               Print ''Operation cancelled.''], Returns ())"
    by (rule run_strategy_cancelled [of sample_env "''no''"])
      (simp_all add: sample_env_def affirmative_responses_def)
  show ?thesis
    using main_resolved [OF r p] c by (simp add: python_process_def sample_args_def)
qed

subsection \<open>What the date parser takes\<close>

lemma strptime_result:
  "(\<exists>d. strptime s = Returns d) \<or> (\<exists>msg. strptime s = Raises (ValueError msg))"
  by (auto simp add: strptime_def datetime_of_date_def split: option.splits prod.splits)

lemma datetime_of_date_Returns:
  "datetime_of_date y m d = Returns x \<Longrightarrow> valid_date y m d \<and> x = Datetime (int (ymd2ord y m d)) 0"
  by (auto simp add: datetime_of_date_def valid_date_def split: if_splits)

lemma re_Y_elem:
  "(Y, r) \<in> set (re_Y s) \<Longrightarrow> s = Y @ r \<and> length Y = 4 \<and> list_all is_digit Y"
  by (induction s rule: re_Y.induct) (auto split: if_splits)

lemma re_two_elem:
  "(g, r) \<in> set (re_two p q s) \<Longrightarrow> \<exists>a b. g = [a, b] \<and> s = a # b # r \<and> p a \<and> q b"
  by (induction p q s rule: re_two.induct) (auto split: if_splits)

lemma re_one_elem:
  "(g, r) \<in> set (re_one p s) \<Longrightarrow> \<exists>a. g = [a] \<and> s = a # r \<and> p a"
  by (induction p s rule: re_one.induct) (auto split: if_splits)

lemma re_dash_elem: "r \<in> set (re_dash s) \<Longrightarrow> s = CHR ''-'' # r"
  by (induction s rule: re_dash.induct) (auto split: if_splits)

lemma re_m_elem: "(g, r) \<in> set (re_m s) \<Longrightarrow> s = g @ r \<and> month_field g"
  by (auto simp add: re_m_def dest!: re_two_elem re_one_elem)

lemma re_d_elem: "(g, r) \<in> set (re_d s) \<Longrightarrow> s = g @ r \<and> day_field g"
  by (auto simp add: re_d_def dest!: re_two_elem re_one_elem)

lemma format_regex_matches_elem:
  assumes "((Y, M, D), r) \<in> set (format_regex_matches s)"
  shows "s = Y @ CHR ''-'' # M @ CHR ''-'' # D @ r
         \<and> length Y = 4 \<and> list_all is_digit Y \<and> month_field M \<and> day_field D"
proof -
  from assms obtain r1 r2 r3 r4 where
    "(Y, r1) \<in> set (re_Y s)" "r2 \<in> set (re_dash r1)" "(M, r3) \<in> set (re_m r2)"
    "r4 \<in> set (re_dash r3)" "(D, r) \<in> set (re_d r4)"
    by (auto simp add: format_regex_matches_def)
  then show ?thesis
    by (auto dest!: re_Y_elem re_dash_elem re_m_elem re_d_elem)
qed

lemma digit_not_dash: "is_digit c \<Longrightarrow> c \<noteq> CHR ''-''"
  by (auto simp add: is_digit_def)

lemma digits_no_dash: "list_all is_digit Y \<Longrightarrow> CHR ''-'' \<notin> set Y"
  by (auto simp add: list_all_iff dest: digit_not_dash)

lemma month_field_no_dash: "month_field M \<Longrightarrow> CHR ''-'' \<notin> set M"
  by (induction M rule: month_field.induct) (auto simp add: in_range_def)

lemma day_field_no_dash: "day_field D \<Longrightarrow> CHR ''-'' \<notin> set D"
  by (induction D rule: day_field.induct) (auto simp add: in_range_def is_digit_def)

lemma split_dash_no_dash: "CHR ''-'' \<notin> set f \<Longrightarrow> split_dash f = [f]"
  by (induction f) auto

lemma split_dash_field:
  "CHR ''-'' \<notin> set f \<Longrightarrow> split_dash (f @ CHR ''-'' # rest) = f # split_dash rest"
  by (induction f) auto

lemma strptime_accepted:
  assumes "strptime s = Returns x"
  shows "accepted_ymd s"
proof -
  from assms obtain Y M D where
    f: "format_regex_match s = Some ((Y, M, D), [])" and
    d: "datetime_of_date (int_of_group Y) (int_of_group M) (int_of_group D) = Returns x"
    by (auto simp add: strptime_def split: option.splits prod.splits if_splits)
  from f have "((Y, M, D), []) \<in> set (format_regex_matches s)"
    by (auto simp add: format_regex_match_def split: list.splits)
  from format_regex_matches_elem [OF this]
  have s: "s = Y @ CHR ''-'' # M @ CHR ''-'' # D" and Y: "length Y = 4" "list_all is_digit Y"
    and M: "month_field M" and D: "day_field D"
    by simp_all
  have "split_dash s = [Y, M, D]"
    using s digits_no_dash [OF Y(2)] month_field_no_dash [OF M] day_field_no_dash [OF D]
    by (simp add: split_dash_field split_dash_no_dash)
  with Y M D datetime_of_date_Returns [OF d] show ?thesis
    by (simp add: accepted_ymd_def)
qed

lemma rejected_strptime:
  "s \<noteq> [] \<Longrightarrow> \<not> accepted_ymd s \<Longrightarrow> \<exists>msg. parse_date (Some s) = Raises (ValueError msg)"
  using strptime_result [of s] strptime_accepted [of s]
  by (auto simp add: parse_date_def)

lemma parse_date_result:
  "(\<exists>d. parse_date x = Returns d) \<or> (\<exists>msg. parse_date x = Raises (ValueError msg))"
  using strptime_result [of "the x"]
  by (cases x) (auto simp add: parse_date_def)

lemma split_dash_not_empty: "split_dash s \<noteq> []"
  by (induction s) (auto split: list.splits)

lemma split_dash_Cons:
  "split_dash s = f # fs
     \<Longrightarrow> (fs = [] \<longrightarrow> s = f) \<and> (fs \<noteq> [] \<longrightarrow> (\<exists>rest. s = f @ CHR ''-'' # rest \<and> split_dash rest = fs))"
proof (induction s arbitrary: f fs)
  case Nil
  then show ?case by simp
next
  case (Cons c cs)
  show ?case
  proof (cases "c = CHR ''-''")
    case True
    with Cons.prems have "f = []" "fs = split_dash cs" by simp_all
    with True show ?thesis by (simp add: split_dash_not_empty)
  next
    case False
    obtain f' fs' where sp: "split_dash cs = f' # fs'"
      using split_dash_not_empty [of cs] by (cases "split_dash cs") auto
    with False Cons.prems have f: "f = c # f'" "fs = fs'" by simp_all
    from Cons.IH [OF sp] f show ?thesis by auto
  qed
qed

lemma split_dash_three:
  assumes "split_dash s = [Y, M, D]"
  shows "s = Y @ CHR ''-'' # M @ CHR ''-'' # D"
proof -
  from split_dash_Cons [OF assms] obtain r1 where
    r1: "s = Y @ CHR ''-'' # r1" "split_dash r1 = [M, D]" by auto
  from split_dash_Cons [OF r1(2)] obtain r2 where
    r2: "r1 = M @ CHR ''-'' # r2" "split_dash r2 = [D]" by auto
  from split_dash_Cons [OF r2(2)] have "r2 = D" by simp
  with r1 r2 show ?thesis by simp
qed

lemma re_Y_year:
  "length Y = 4 \<Longrightarrow> list_all is_digit Y \<Longrightarrow> re_Y (Y @ rest) = [(Y, rest)]"
  by (cases Y rule: re_Y.cases) auto

lemma re_m_month:
  "month_field M \<Longrightarrow> \<exists>others. re_m (M @ CHR ''-'' # rest) = (M, CHR ''-'' # rest) # others"
  by (induction M rule: month_field.induct) (auto simp add: re_m_def in_range_def)

lemma re_d_day:
  "day_field D \<Longrightarrow> \<exists>others. re_d D = (D, []) # others"
  by (induction D rule: day_field.induct) (auto simp add: re_d_def in_range_def is_digit_def)

lemma format_regex_match_fields:
  assumes "length Y = 4" "list_all is_digit Y" "month_field M" "day_field D"
  shows "format_regex_match (Y @ CHR ''-'' # M @ CHR ''-'' # D) = Some ((Y, M, D), [])"
proof -
  from re_m_month [OF assms(3)] obtain om where
    m: "re_m (M @ CHR ''-'' # D) = (M, CHR ''-'' # D) # om" by blast
  from re_d_day [OF assms(4)] obtain od where d: "re_d D = (D, []) # od" by blast
  have "format_regex_matches (Y @ CHR ''-'' # M @ CHR ''-'' # D)
          = ((Y, M, D), []) # map (\<lambda>(d, r5). ((Y, M, d), r5)) od
            @ concat (map (\<lambda>(m, r3). concat (map (\<lambda>r4. map (\<lambda>(d, r5). ((Y, m, d), r5)) (re_d r4))
                (re_dash r3))) om)"
    by (simp add: format_regex_matches_def re_Y_year [OF assms(1) assms(2)] m d)
  then show ?thesis by (simp add: format_regex_match_def)
qed

lemma accepted_strptime:
  assumes "accepted_ymd s"
  shows "\<exists>Y M D. split_dash s = [Y, M, D]
           \<and> strptime s = Returns (Datetime (int (ymd2ord (int_of_group Y) (int_of_group M)
                                                    (int_of_group D))) 0)"
proof -
  from assms obtain Y M D where sp: "split_dash s = [Y, M, D]"
    and Y: "length Y = 4" "list_all is_digit Y" and M: "month_field M" and D: "day_field D"
    and v: "valid_date (int_of_group Y) (int_of_group M) (int_of_group D)"
    by (auto simp add: accepted_ymd_def split: list.splits)
  from split_dash_three [OF sp] have s: "s = Y @ CHR ''-'' # M @ CHR ''-'' # D" .
  from v have "datetime_of_date (int_of_group Y) (int_of_group M) (int_of_group D)
          = Returns (Datetime (int (ymd2ord (int_of_group Y) (int_of_group M) (int_of_group D))) 0)"
    by (auto simp add: datetime_of_date_def valid_date_def)
  with s format_regex_match_fields [OF Y M D] sp show ?thesis
    by (simp add: strptime_def)
qed

lemma strptime_Returns_iff: "(\<exists>x. strptime s = Returns x) \<longleftrightarrow> accepted_ymd s"
  using strptime_accepted [of s] accepted_strptime [of s] by auto

lemma strptime_unpadded: "strptime ''2024-1-5'' = strptime ''2024-01-05''"
  by (simp add: strptime_eval)

lemma char_code_eq: "a = b \<longleftrightarrow> (of_char a :: nat) = of_char b"
  by auto

lemma days_in_month_le_31: "1 \<le> m \<Longrightarrow> m \<le> 12 \<Longrightarrow> days_in_month y m \<le> 31"
proof -
  assume "1 \<le> m" "m \<le> 12"
  then have "m \<in> {1, 2, 3, 4, 5, 6, 7, 8, 9, 10, 11, 12}" by simp arith
  then show ?thesis
    by (auto simp add: days_in_month_def DAYS_IN_MONTH_def)
qed

lemma int_of_group_two_digits:
  "is_digit a \<Longrightarrow> int_of_group [a, b] = 10 * digit_value a + digit_value b"
  by (auto simp add: int_of_group_def is_digit_def)

lemma month_field_two_digits:
  assumes "is_digit a" "is_digit b" "1 \<le> int_of_group [a, b]" "int_of_group [a, b] \<le> 12"
  shows "month_field [a, b]"
  using assms
  by (simp add: int_of_group_two_digits)
    (auto simp add: is_digit_def in_range_def digit_value_def less_eq_char_def char_code_eq)

lemma day_field_two_digits:
  assumes "is_digit a" "is_digit b" "1 \<le> int_of_group [a, b]" "int_of_group [a, b] \<le> 31"
  shows "day_field [a, b]"
  using assms
  by (simp add: int_of_group_two_digits)
    (auto simp add: is_digit_def in_range_def digit_value_def less_eq_char_def char_code_eq)

lemma length_ten:
  "length s = 10 \<Longrightarrow> \<exists>a b c d e f g h i j. s = [a, b, c, d, e, f, g, h, i, j]"
  by (auto simp add: eval_nat_numeral length_Suc_conv)

lemma well_formed_accepted:
  assumes "well_formed_ymd s"
  shows "accepted_ymd s"
proof -
  from assms have "length s = 10" by (simp add: well_formed_ymd_def)
  from length_ten [OF this] obtain a b c d e f g h i j where
    s: "s = [a, b, c, d, e, f, g, h, i, j]" by blast
  with assms have dash: "e = CHR ''-''" "h = CHR ''-''"
    and dig: "is_digit a" "is_digit b" "is_digit c" "is_digit d" "is_digit f" "is_digit g"
      "is_digit i" "is_digit j"
    and v: "valid_date (int_of_group [a, b, c, d]) (int_of_group [f, g]) (int_of_group [i, j])"
    by (simp_all add: well_formed_ymd_def eval_nat_numeral)
  from v have m: "1 \<le> int_of_group [f, g]" "int_of_group [f, g] \<le> 12"
    and dd: "1 \<le> int_of_group [i, j]"
      "int_of_group [i, j] \<le> days_in_month (int_of_group [a, b, c, d]) (int_of_group [f, g])"
    by (simp_all add: valid_date_def)
  from dd(2) days_in_month_le_31 [OF m] have d31: "int_of_group [i, j] \<le> 31"
    by (rule order_trans)
  have sp: "split_dash s = [[a, b, c, d], [f, g], [i, j]]"
    using s dash dig by (auto simp add: is_digit_def)
  from sp dig v month_field_two_digits [OF dig(5) dig(6) m]
    day_field_two_digits [OF dig(7) dig(8) dd(1) d31]
  show ?thesis
    by (simp add: accepted_ymd_def)
qed

section \<open>The live path: claim C1\<close>

text \<open>
  C1. With \<^verbatim>\<open>is_live\<close> true and the prompt answered \<^verbatim>\<open>yes\<close> the dispatcher should
  obtain the connection of the chosen broker, bind the strategy to it and start the live
  runner. The code constructs the \<^verbatim>\<open>Trader\<close> and then calls
  \<^verbatim>\<open>configure_broker()\<close> with no argument: whatever the broker choice, the call raises
  \<^verbatim>\<open>TypeError\<close>, no connection is constructed and the runner is never started.
\<close>

theorem run_strategy_live_yes_raises_TypeError:
  "run_strategy (e\<lparr>stdin_line := Some ''yes''\<rparr>) module_name strategy_class True broker_choice
       start_date end_date
     = ([Print (''Configured to run in live mode with broker: '' @ broker_choice),
         Input ''Do you want to proceed? (yes/no): '', Trader_init],
        Raises (TypeError (''configure_broker() missing 1 required positional argument: ''
                  @ quoted ''broker_choice'')))"
  by (simp add: run_strategy_def call_configure_broker_def lower_def lower_char_def Let_def)

section \<open>The confirmation gate: claim C2\<close>

text \<open>
  C2. In live mode, when the line read at the confirmation prompt is not one of the
  spellings of \<^verbatim>\<open>yes\<close> in upper or lower case, the dispatcher prints the broker,
  the prompt and the cancellation notice and returns: no trader and no broker connection
  is constructed, no runner is started, and the process ends with status zero.
\<close>

theorem declined_confirmation_cancels:
  assumes "stdin_line e = Some line" and "line \<notin> set affirmative_responses"
  shows "run_strategy e module_name strategy_class True broker_choice start_date end_date
           = ([Print (''Configured to run in live mode with broker: '' @ broker_choice),
               Input ''Do you want to proceed? (yes/no): '',
               Print ''Operation cancelled.''], Returns ())
         \<and> (live a
              \<and> resolve_strategy e (hd (rsplit1 CHR ''.'' (strategy_file a)))
                  = ([], Returns strategy_class)
              \<and> parse_date (start a) = Returns start_date
              \<and> parse_date (end' a) = Returns end_date
            \<longrightarrow> python_process e a
                  = ([Print (''Configured to run in live mode with broker: '' @ broker a),
                      Input ''Do you want to proceed? (yes/no): '',
                      Print ''Operation cancelled.''], 0))"
  using assms
  by (auto simp add: run_strategy_cancelled main_resolved python_process_def)

theorem declined_confirmation_cancels_witness:
  "stdin_line sample_env = Some ''no'' \<and> ''no'' \<notin> set affirmative_responses
   \<and> live (sample_args\<lparr>live := True\<rparr>)
   \<and> resolve_strategy sample_env (hd (rsplit1 CHR ''.'' (strategy_file (sample_args\<lparr>live := True\<rparr>))))
        = ([], Returns (PyClass ''MyStrategy'' ''my_strategy''))
   \<and> parse_date (start (sample_args\<lparr>live := True\<rparr>)) = Returns None
   \<and> parse_date (end' (sample_args\<lparr>live := True\<rparr>)) = Returns None
   \<and> run_strategy sample_env ''my_strategy'' (PyClass ''MyStrategy'' ''my_strategy'') True ''Kraken''
        None None
        = ([Print ''Configured to run in live mode with broker: Kraken'',
            Input ''Do you want to proceed? (yes/no): '',
            Print ''Operation cancelled.''], Returns ())
   \<and> python_process sample_env (sample_args\<lparr>live := True\<rparr>)
        = ([Print ''Configured to run in live mode with broker: Kraken'',
            Input ''Do you want to proceed? (yes/no): '',
            Print ''Operation cancelled.''], 0)"
proof -
  have h1: "stdin_line sample_env = Some ''no''" by (simp add: sample_env_def)
  have h2: "''no'' \<notin> set affirmative_responses" by (simp add: affirmative_responses_def)
  have h3: "resolve_strategy sample_env (hd (rsplit1 CHR ''.'' (strategy_file (sample_args\<lparr>live := True\<rparr>))))
        = ([], Returns (PyClass ''MyStrategy'' ''my_strategy''))"
    using sample_resolve [of "Some ''no''"] by (simp add: sample_args_def sample_env_def)
  have h4: "parse_date (start (sample_args\<lparr>live := True\<rparr>)) = Returns None"
    "parse_date (end' (sample_args\<lparr>live := True\<rparr>)) = Returns None"
    by (simp_all add: sample_args_def parse_date_def)
  show ?thesis
    using declined_confirmation_cancels [OF h1 h2, of "''my_strategy''"
        "PyClass ''MyStrategy'' ''my_strategy''" "''Kraken''" None None "sample_args\<lparr>live := True\<rparr>"]
      h1 h2 h3 h4
    by (simp add: sample_args_def)
qed

section \<open>The run window: claims C3 and C4\<close>

text \<open>
  C3. While the clock reads a valid date after 0002-01-01, the run-window calculation
  returns a supplied pair of start and end unchanged; when only one bound is supplied it
  is kept and the other is the default computed from the clock alone: the end is
  yesterday (the clock minus one day) and the start is 365 days before yesterday. Neither
  default depends on the bound that was supplied.
\<close>

theorem backtest_window_supplied_bounds:
  assumes "valid_datetime clock" and "366 < toordinal clock"
  shows "backtest_window clock (Some s) (Some u) = Returns (s, u)
         \<and> backtest_window clock (Some s) None = Returns (s, days_before clock 1)
         \<and> backtest_window clock None (Some u)
             = Returns (days_before (days_before clock 1) 365, u)"
  using assms by (simp add: backtest_window_in_range)

theorem backtest_window_supplied_bounds_witness:
  "valid_datetime (Datetime 740000 34200000000) \<and> 366 < toordinal (Datetime 740000 34200000000)
   \<and> backtest_window (Datetime 740000 34200000000) (Some (Datetime 738886 0)) (Some (Datetime 739038 0))
       = Returns (Datetime 738886 0, Datetime 739038 0)
   \<and> backtest_window (Datetime 740000 34200000000) (Some (Datetime 738886 0)) None
       = Returns (Datetime 738886 0, Datetime 739999 34200000000)
   \<and> backtest_window (Datetime 740000 34200000000) None (Some (Datetime 739038 0))
       = Returns (Datetime 739634 34200000000, Datetime 739038 0)"
proof -
  have h1: "valid_datetime (Datetime 740000 34200000000)"
    by (simp add: valid_datetime_def MAXORDINAL_def)
  have h2: "366 < toordinal (Datetime 740000 34200000000)" by simp
  show ?thesis
    using backtest_window_supplied_bounds [OF h1 h2, of "Datetime 738886 0" "Datetime 739038 0"] h1 h2
    by (simp add: days_before_def)
qed

text \<open>
  C4. While the clock reads a valid date after 0002-01-01, the window computed with no
  start and no end has its end one day before the clock and its start 365 days before
  that end; an invocation without \<^verbatim>\<open>--live\<close>, \<^verbatim>\<open>--start\<close> and \<^verbatim>\<open>--end\<close>
  whose strategy resolves calls the backtest engine with exactly this window and ends
  with status zero.
\<close>

theorem default_window_trailing_year:
  assumes "valid_datetime (now e)" and "366 < toordinal (now e)"
  shows "backtest_window (now e) None None
           = Returns (days_before (days_before (now e) 1) 365, days_before (now e) 1)
         \<and> (\<not> live a \<and> start a = None \<and> end' a = None
              \<and> resolve_strategy e (hd (rsplit1 CHR ''.'' (strategy_file a))) = ([], Returns c)
              \<and> map_of (POLYGON_CONFIG e) ''API_KEY'' = Some k
            \<longrightarrow> (\<exists>call. python_process e a = ([Print ''Starting Backtest...'', Backtest c call], 0)
                   \<and> backtesting_end call = days_before (now e) 1
                   \<and> backtesting_start call = days_before (backtesting_end call) 365))"
proof -
  have w: "backtest_window (now e) None None
             = Returns (days_before (days_before (now e) 1) 365, days_before (now e) 1)"
    using assms by (simp add: backtest_window_in_range)
  show ?thesis
  proof (intro conjI impI)
    show "backtest_window (now e) None None
            = Returns (days_before (days_before (now e) 1) 365, days_before (now e) 1)"
      by (rule w)
  next
    assume h: "\<not> live a \<and> start a = None \<and> end' a = None
      \<and> resolve_strategy e (hd (rsplit1 CHR ''.'' (strategy_file a))) = ([], Returns c)
      \<and> map_of (POLYGON_CONFIG e) ''API_KEY'' = Some k"
    then have p: "parse_date (start a) = Returns None" "parse_date (end' a) = Returns None"
      by (simp_all add: parse_date_def)
    from h have r: "resolve_strategy e (hd (rsplit1 CHR ''.'' (strategy_file a))) = ([], Returns c)"
      and k: "map_of (POLYGON_CONFIG e) ''API_KEY'' = Some k" and l: "live a = False"
      by simp_all
    have "main e a = run_strategy e (hd (rsplit1 CHR ''.'' (strategy_file a))) c False (broker a) None None"
      using main_resolved [OF r p] l by simp
    then show "\<exists>call. python_process e a = ([Print ''Starting Backtest...'', Backtest c call], 0)
                   \<and> backtesting_end call = days_before (now e) 1
                   \<and> backtesting_start call = days_before (backtesting_end call) 365"
      by (simp add: run_strategy_backtest [OF w k] python_process_def)
  qed
qed

theorem default_window_trailing_year_witness:
  "valid_datetime (now sample_env) \<and> 366 < toordinal (now sample_env)
   \<and> \<not> live sample_args \<and> start sample_args = None \<and> end' sample_args = None
   \<and> resolve_strategy sample_env (hd (rsplit1 CHR ''.'' (strategy_file sample_args)))
        = ([], Returns (PyClass ''MyStrategy'' ''my_strategy''))
   \<and> map_of (POLYGON_CONFIG sample_env) ''API_KEY'' = Some ''secret''
   \<and> backtest_window (now sample_env) None None
        = Returns (Datetime 739634 34200000000, Datetime 739999 34200000000)
   \<and> (\<exists>call. python_process sample_env sample_args
                = ([Print ''Starting Backtest...'',
                    Backtest (PyClass ''MyStrategy'' ''my_strategy'') call], 0)
          \<and> backtesting_end call = Datetime 739999 34200000000
          \<and> backtesting_start call = Datetime 739634 34200000000)"
proof -
  have h1: "valid_datetime (now sample_env)" and h2: "366 < toordinal (now sample_env)"
    using sample_clock by simp_all
  have h3: "\<not> live sample_args \<and> start sample_args = None \<and> end' sample_args = None"
    by (simp add: sample_args_def)
  have h4: "resolve_strategy sample_env (hd (rsplit1 CHR ''.'' (strategy_file sample_args)))
        = ([], Returns (PyClass ''MyStrategy'' ''my_strategy''))"
    by (rule sample_resolve_args) (simp add: sample_args_def)
  have n: "now sample_env = Datetime 740000 34200000000" by (simp add: sample_env_def)
  show ?thesis
    using default_window_trailing_year [OF h1 h2, of sample_args
        "PyClass ''MyStrategy'' ''my_strategy''" "''secret''"] h1 h2 h3 h4 sample_api_key
    by (auto simp add: n days_before_def)
qed

section \<open>The strategy resolver: claim C5\<close>

text \<open>
  C5 says that the resolver returns the first class in declaration order among those the
  module defines itself. \<^verbatim>\<open>inspect.getmembers\<close> returns the members sorted by name,
  so in a module that defines \<^verbatim>\<open>Zeta\<close> and then \<^verbatim>\<open>Alpha\<close> the resolver returns
  \<^verbatim>\<open>Alpha\<close>, while the first class declared is \<^verbatim>\<open>Zeta\<close>.
\<close>

theorem find_strategy_class_counterexample:
  "find_strategy_class two_class_module = Some (PyClass ''Alpha'' ''pair'')
   \<and> first_declared_class two_class_module = Some (PyClass ''Zeta'' ''pair'')
   \<and> find_strategy_class two_class_module \<noteq> first_declared_class two_class_module"
  by (simp add: find_strategy_class_def getmembers_def dir_module_def getattr_module_def
      isclass_def first_declared_class_def two_class_module_def)

text \<open>
  C5, as the code has it. The resolver returns \<open>None\<close> exactly when the module's
  namespace binds no class whose \<^verbatim>\<open>__module__\<close> is the module's name; otherwise it
  returns such a class (never one that was only imported), and among all of them the one
  bound to the least name in the order of strings.
\<close>

theorem find_strategy_class_least_name:
  "(find_strategy_class m = None
      \<longleftrightarrow> (\<forall>n c. getattr_module m n = Some (ClassObj c) \<longrightarrow> cls_module c \<noteq> mod_name m))
   \<and> (find_strategy_class m = Some c
      \<longrightarrow> (\<exists>n. getattr_module m n = Some (ClassObj c) \<and> cls_module c = mod_name m
               \<and> (\<forall>n' c'. getattr_module m n' = Some (ClassObj c') \<and> cls_module c' = mod_name m
                      \<longrightarrow> n \<le> n')))"
proof (intro conjI impI)
  show "find_strategy_class m = None
      \<longleftrightarrow> (\<forall>n c. getattr_module m n = Some (ClassObj c) \<longrightarrow> cls_module c \<noteq> mod_name m)"
    by (simp add: find_strategy_class_def first_own_class_None getmembers_iff isclass_def)
next
  assume "find_strategy_class m = Some c"
  then have "first_own_class (mod_name m) (getmembers m isclass) = Some c"
    by (simp add: find_strategy_class_def)
  from first_own_class_sorted [OF sorted_getmembers this]
  show "\<exists>n. getattr_module m n = Some (ClassObj c) \<and> cls_module c = mod_name m
               \<and> (\<forall>n' c'. getattr_module m n' = Some (ClassObj c') \<and> cls_module c' = mod_name m
                      \<longrightarrow> n \<le> n')"
    by (simp add: getmembers_iff isclass_def)
qed

theorem find_strategy_class_least_name_witness:
  "find_strategy_class two_class_module = Some (PyClass ''Alpha'' ''pair'')
   \<and> find_strategy_class two_class_module \<noteq> None
   \<and> getattr_module two_class_module ''Zeta'' = Some (ClassObj (PyClass ''Zeta'' ''pair''))
   \<and> cls_module (PyClass ''Zeta'' ''pair'') = mod_name two_class_module
   \<and> (\<exists>n. getattr_module two_class_module n = Some (ClassObj (PyClass ''Alpha'' ''pair''))
          \<and> cls_module (PyClass ''Alpha'' ''pair'') = mod_name two_class_module
          \<and> n \<le> ''Zeta'')"
proof -
  have h: "find_strategy_class two_class_module = Some (PyClass ''Alpha'' ''pair'')"
    by (simp add: find_strategy_class_def getmembers_def dir_module_def getattr_module_def
      isclass_def two_class_module_def)
  have z: "getattr_module two_class_module ''Zeta'' = Some (ClassObj (PyClass ''Zeta'' ''pair''))
    \<and> cls_module (PyClass ''Zeta'' ''pair'') = mod_name two_class_module"
    by (simp add: getattr_module_def two_class_module_def)
  from find_strategy_class_least_name [of two_class_module "PyClass ''Alpha'' ''pair''"] h
  obtain n where "getattr_module two_class_module n = Some (ClassObj (PyClass ''Alpha'' ''pair''))"
    "cls_module (PyClass ''Alpha'' ''pair'') = mod_name two_class_module"
    "\<forall>n' c'. getattr_module two_class_module n' = Some (ClassObj c')
        \<and> cls_module c' = mod_name two_class_module \<longrightarrow> n \<le> n'"
    by blast
  with z h show ?thesis by auto
qed

section \<open>Failed resolution: claim C6\<close>

text \<open>
  C6. When the strategy cannot be resolved the process writes an error message and ends
  with status 1, and nothing else happens: no prompt, no trader, no broker, no backtest.
  When the import raises \<^verbatim>\<open>ImportError\<close> or a subclass, or the module has no class
  of its own, the message is the line \<^verbatim>\<open>Error importing strategy: ...\<close> of the
  handler; when the import raises any other exception, the message is the traceback that
  the interpreter writes for it.
\<close>

theorem resolution_failure_exits_nonzero:
  "(import_module e (hd (rsplit1 CHR ''.'' (strategy_file a))) = Raises x
      \<and> isinstance_exn x ''ImportError''
     \<longrightarrow> python_process e a = ([Print (''Error importing strategy: '' @ exn_msg x)], 1))
   \<and> (import_module e (hd (rsplit1 CHR ''.'' (strategy_file a))) = Raises x
      \<and> \<not> isinstance_exn x ''ImportError''
     \<longrightarrow> python_process e a = ([Traceback x], 1))
   \<and> (import_module e (hd (rsplit1 CHR ''.'' (strategy_file a))) = Returns m
      \<and> find_strategy_class m = None
     \<longrightarrow> python_process e a
           = ([Print (''Error importing strategy: No strategy class found in the module ''
                        @ hd (rsplit1 CHR ''.'' (strategy_file a)) @ ''.'')], 1))"
proof (intro conjI impI)
  assume "import_module e (hd (rsplit1 CHR ''.'' (strategy_file a))) = Raises x
      \<and> isinstance_exn x ''ImportError''"
  then have "resolve_strategy e (hd (rsplit1 CHR ''.'' (strategy_file a)))
               = ([Print (''Error importing strategy: '' @ exn_msg x)], Exits 1)"
    by (simp add: resolve_strategy_def import_error_handler_def)
  then show "python_process e a = ([Print (''Error importing strategy: '' @ exn_msg x)], 1)"
    by (simp add: python_process_def main_resolution_failed)
next
  assume "import_module e (hd (rsplit1 CHR ''.'' (strategy_file a))) = Raises x
      \<and> \<not> isinstance_exn x ''ImportError''"
  then have "resolve_strategy e (hd (rsplit1 CHR ''.'' (strategy_file a))) = ([], Raises x)"
    by (simp add: resolve_strategy_def)
  then show "python_process e a = ([Traceback x], 1)"
    by (simp add: python_process_def main_resolution_failed)
next
  assume "import_module e (hd (rsplit1 CHR ''.'' (strategy_file a))) = Returns m
      \<and> find_strategy_class m = None"
  then have "resolve_strategy e (hd (rsplit1 CHR ''.'' (strategy_file a)))
               = ([Print (''Error importing strategy: No strategy class found in the module ''
                        @ hd (rsplit1 CHR ''.'' (strategy_file a)) @ ''.'')], Exits 1)"
    by (simp add: resolve_strategy_def import_error_handler_def ImportError_def)
  then show "python_process e a
           = ([Print (''Error importing strategy: No strategy class found in the module ''
                        @ hd (rsplit1 CHR ''.'' (strategy_file a)) @ ''.'')], 1)"
    by (simp add: python_process_def main_resolution_failed)
qed

theorem resolution_failure_exits_nonzero_witness:
  "import_module sample_env (hd (rsplit1 CHR ''.'' (strategy_file (sample_args\<lparr>strategy_file := ''missing.py''\<rparr>))))
     = Raises (ModuleNotFoundError (''No module named '' @ quoted ''missing''))
   \<and> isinstance_exn (ModuleNotFoundError (''No module named '' @ quoted ''missing'')) ''ImportError''
   \<and> python_process sample_env (sample_args\<lparr>strategy_file := ''missing.py''\<rparr>)
       = ([Print (''Error importing strategy: No module named '' @ quoted ''missing'')], 1)
   \<and> import_module sample_env (hd (rsplit1 CHR ''.'' (strategy_file (sample_args\<lparr>strategy_file := ''.py''\<rparr>))))
       = Raises (ValueError ''Empty module name'')
   \<and> \<not> isinstance_exn (ValueError ''Empty module name'') ''ImportError''
   \<and> python_process sample_env (sample_args\<lparr>strategy_file := ''.py''\<rparr>)
       = ([Traceback (ValueError ''Empty module name'')], 1)
   \<and> import_module (sample_env\<lparr>importer := \<lambda>name. Returns \<lparr>mod_name = name, mod_dict = []\<rparr>\<rparr>)
         (hd (rsplit1 CHR ''.'' (strategy_file sample_args)))
       = Returns \<lparr>mod_name = ''my_strategy'', mod_dict = []\<rparr>
   \<and> find_strategy_class \<lparr>mod_name = ''my_strategy'', mod_dict = []\<rparr> = None
   \<and> python_process (sample_env\<lparr>importer := \<lambda>name. Returns \<lparr>mod_name = name, mod_dict = []\<rparr>\<rparr>)
         sample_args
       = ([Print ''Error importing strategy: No strategy class found in the module my_strategy.''], 1)"
proof -
  let ?a1 = "sample_args\<lparr>strategy_file := ''missing.py''\<rparr>"
  let ?x1 = "ModuleNotFoundError (''No module named '' @ quoted ''missing'')"
  let ?a2 = "sample_args\<lparr>strategy_file := ''.py''\<rparr>"
  let ?x2 = "ValueError ''Empty module name''"
  let ?m3 = "\<lparr>mod_name = ''my_strategy'', mod_dict = []\<rparr>"
  let ?e3 = "sample_env\<lparr>importer := \<lambda>name. Returns \<lparr>mod_name = name, mod_dict = []\<rparr>\<rparr>"
  have h1: "import_module sample_env (hd (rsplit1 CHR ''.'' (strategy_file ?a1))) = Raises ?x1
      \<and> isinstance_exn ?x1 ''ImportError''"
    by (simp add: import_module_def sample_env_def sample_args_def isinstance_exn_def
        ModuleNotFoundError_def)
  have h2: "import_module sample_env (hd (rsplit1 CHR ''.'' (strategy_file ?a2))) = Raises ?x2
      \<and> \<not> isinstance_exn ?x2 ''ImportError''"
    by (simp add: import_module_def sample_env_def sample_args_def isinstance_exn_def
        ValueError_def)
  have h3: "import_module ?e3 (hd (rsplit1 CHR ''.'' (strategy_file sample_args))) = Returns ?m3
      \<and> find_strategy_class ?m3 = None"
    by (simp add: import_module_def sample_args_def find_strategy_class_def getmembers_def
        dir_module_def)
  show ?thesis
    using resolution_failure_exits_nonzero [of sample_env ?a1 ?x1]
      resolution_failure_exits_nonzero [of sample_env ?a2 ?x2]
      resolution_failure_exits_nonzero [of ?e3 sample_args _ ?m3]
      h1 h2 h3
    by (simp add: ModuleNotFoundError_def sample_args_def)
qed

section \<open>Sessions of a run: claim C7\<close>

text \<open>
  C7 says that every invocation creates exactly one of a live session and a backtest
  session. An invocation in live mode whose confirmation is declined creates neither.
\<close>

theorem exactly_one_session_counterexample:
  "live (sample_args\<lparr>live := True\<rparr>)
   \<and> \<not> live_session (fst (python_process sample_env (sample_args\<lparr>live := True\<rparr>)))
   \<and> \<not> backtest_session (fst (python_process sample_env (sample_args\<lparr>live := True\<rparr>)))"
proof -
  have "live (sample_args\<lparr>live := True\<rparr>)" by simp
  then show ?thesis
    by (simp add: sample_cancelled_run live_session_def backtest_session_def)
qed

text \<open>
  C7, as the code has it. No invocation creates both a live session and a backtest
  session: in live mode the backtest engine is never called, and without live mode no
  broker connection is constructed and the live runner is never started.
\<close>

theorem at_most_one_session:
  "\<not> (live_session (fst (python_process e a)) \<and> backtest_session (fst (python_process e a)))
   \<and> (live a \<longrightarrow> \<not> backtest_session (fst (python_process e a)))
   \<and> (\<not> live a \<longrightarrow> \<not> live_session (fst (python_process e a)))"
  using main_live_no_backtest [of a e] main_backtest_no_live [of a e]
  by (auto simp add: python_process_sessions backtest_session_def live_session_def)

theorem at_most_one_session_witness:
  "live (sample_args\<lparr>live := True\<rparr>)
   \<and> \<not> backtest_session (fst (python_process sample_env (sample_args\<lparr>live := True\<rparr>)))
   \<and> \<not> live sample_args
   \<and> \<not> live_session (fst (python_process sample_env sample_args))"
  using at_most_one_session [of sample_env "sample_args\<lparr>live := True\<rparr>"]
    at_most_one_session [of sample_env sample_args]
  by (simp add: sample_args_def)

section \<open>The broker selector: claim C8\<close>

text \<open>
  C8. The broker selector returns an InteractiveBrokers connection, built from the
  Interactive Brokers credentials, for the choice \<^verbatim>\<open>'IB'\<close>, a Ccxt (Kraken)
  connection, built from the Kraken credentials, for the choice \<^verbatim>\<open>'Kraken'\<close>, and
  for every other choice it constructs nothing and fails with \<^verbatim>\<open>ValueError\<close>, the
  exception that the specification calls ConfigurationError.
\<close>

theorem configure_broker_by_choice:
  "configure_broker e ''IB''
     = ([Broker_init (InteractiveBrokers (INTERACTIVE_BROKERS_CONFIG e))],
        Returns (InteractiveBrokers (INTERACTIVE_BROKERS_CONFIG e)))
   \<and> configure_broker e ''Kraken''
     = ([Broker_init (Ccxt (KRAKEN_CONFIG e))], Returns (Ccxt (KRAKEN_CONFIG e)))
   \<and> (broker_choice \<noteq> ''IB'' \<and> broker_choice \<noteq> ''Kraken''
        \<longrightarrow> (\<exists>msg. configure_broker e broker_choice = ([], Raises (ValueError msg))))"
  by (auto simp add: configure_broker_def Let_def)

theorem configure_broker_by_choice_witness:
  "''Binance'' \<noteq> ''IB'' \<and> ''Binance'' \<noteq> ''Kraken''
   \<and> configure_broker sample_env ''IB''
     = ([Broker_init (InteractiveBrokers [(''SOCKET_PORT'', ''7497'')])],
        Returns (InteractiveBrokers [(''SOCKET_PORT'', ''7497'')]))
   \<and> configure_broker sample_env ''Kraken''
     = ([Broker_init (Ccxt [(''exchange_id'', ''kraken'')])],
        Returns (Ccxt [(''exchange_id'', ''kraken'')]))
   \<and> (\<exists>msg. configure_broker sample_env ''Binance'' = ([], Raises (ValueError msg)))"
  using configure_broker_by_choice [of sample_env "''Binance''"]
  by (simp add: sample_env_def)

section \<open>The backtest call: claim C9\<close>

text \<open>
  C9. Every invocation that reaches the backtest passes to the engine the same fee
  \<^verbatim>\<open>TradingFee(percent_fee=0.005)\<close> for buying and for selling, the risk-free rate
  5.233, the paid-subscription flag set, no extra parameters, and the log file
  \<^verbatim>\<open>logs/<module_name>.log\<close>, where the module name is the \<^verbatim>\<open>strategy_file\<close>
  argument without its extension: the argument itself when it has no dot, and otherwise
  the part before its last dot.
\<close>

theorem backtest_engine_arguments:
  assumes "\<not> live a"
    and "resolve_strategy e (hd (rsplit1 CHR ''.'' (strategy_file a))) = ([], Returns c)"
    and "parse_date (start a) = Returns s" and "parse_date (end' a) = Returns u"
    and "backtest_window (now e) s u = Returns (bs, be)"
    and "map_of (POLYGON_CONFIG e) ''API_KEY'' = Some k"
  shows "main e a
           = ([Print ''Starting Backtest...'',
               Backtest c
                 \<lparr> datasource_class = ''PolygonDataBacktesting'',
                   backtesting_start = bs,
                   backtesting_end = be,
                   polygon_api_key = k,
                   polygon_has_paid_subscription = True,
                   risk_free_rate = 5.233,
                   buy_trading_fees = [TradingFee 0.005],
                   sell_trading_fees = [TradingFee 0.005],
                   logfile = ''logs/'' @ hd (rsplit1 CHR ''.'' (strategy_file a)) @ ''.log'',
                   parameters = [] \<rparr>],
              Returns ())
         \<and> (CHR ''.'' \<notin> set (strategy_file a)
              \<longrightarrow> hd (rsplit1 CHR ''.'' (strategy_file a)) = strategy_file a)
         \<and> (CHR ''.'' \<in> set (strategy_file a)
              \<longrightarrow> (\<exists>ext. strategy_file a = hd (rsplit1 CHR ''.'' (strategy_file a)) @ ''.'' @ ext
                         \<and> CHR ''.'' \<notin> set ext))"
proof -
  from assms(1) have l: "live a = False" by simp
  have "main e a = run_strategy e (hd (rsplit1 CHR ''.'' (strategy_file a))) c False (broker a) s u"
    using main_resolved [OF assms(2) assms(3) assms(4)] l by simp
  then show ?thesis
    using module_name_with_dot [of "CHR ''.''" "strategy_file a"]
    by (simp add: run_strategy_backtest [OF assms(5) assms(6)] module_name_without_dot)
qed

theorem backtest_engine_arguments_witness:
  "\<not> live (sample_args\<lparr>start := Some ''2024-01-01'', end' := Some ''2024-06-01''\<rparr>)
   \<and> resolve_strategy sample_env
        (hd (rsplit1 CHR ''.''
           (strategy_file (sample_args\<lparr>start := Some ''2024-01-01'', end' := Some ''2024-06-01''\<rparr>))))
        = ([], Returns (PyClass ''MyStrategy'' ''my_strategy''))
   \<and> parse_date (start (sample_args\<lparr>start := Some ''2024-01-01'', end' := Some ''2024-06-01''\<rparr>))
        = Returns (Some (Datetime 738886 0))
   \<and> parse_date (end' (sample_args\<lparr>start := Some ''2024-01-01'', end' := Some ''2024-06-01''\<rparr>))
        = Returns (Some (Datetime 739038 0))
   \<and> backtest_window (now sample_env) (Some (Datetime 738886 0)) (Some (Datetime 739038 0))
        = Returns (Datetime 738886 0, Datetime 739038 0)
   \<and> map_of (POLYGON_CONFIG sample_env) ''API_KEY'' = Some ''secret''
   \<and> CHR ''.'' \<in> set ''my_strategy.py''
   \<and> main sample_env (sample_args\<lparr>start := Some ''2024-01-01'', end' := Some ''2024-06-01''\<rparr>)
        = ([Print ''Starting Backtest...'',
            Backtest (PyClass ''MyStrategy'' ''my_strategy'')
              \<lparr> datasource_class = ''PolygonDataBacktesting'',
                backtesting_start = Datetime 738886 0,
                backtesting_end = Datetime 739038 0,
                polygon_api_key = ''secret'',
                polygon_has_paid_subscription = True,
                risk_free_rate = 5.233,
                buy_trading_fees = [TradingFee 0.005],
                sell_trading_fees = [TradingFee 0.005],
                logfile = ''logs/my_strategy.log'',
                parameters = [] \<rparr>],
           Returns ())
   \<and> (\<exists>ext. ''my_strategy.py'' = ''my_strategy'' @ ''.'' @ ext \<and> CHR ''.'' \<notin> set ext)"
proof -
  let ?a = "sample_args\<lparr>start := Some ''2024-01-01'', end' := Some ''2024-06-01''\<rparr>"
  have f: "strategy_file ?a = ''my_strategy.py''" by (simp add: sample_args_def)
  have h1: "\<not> live ?a" by (simp add: sample_args_def)
  have h2: "resolve_strategy sample_env (hd (rsplit1 CHR ''.'' (strategy_file ?a)))
              = ([], Returns (PyClass ''MyStrategy'' ''my_strategy''))"
    by (rule sample_resolve_args) (rule f)
  have h3: "parse_date (start ?a) = Returns (Some (Datetime 738886 0))"
    by (simp add: sample_dates)
  have h4: "parse_date (end' ?a) = Returns (Some (Datetime 739038 0))"
    by (simp add: sample_dates)
  have h5: "backtest_window (now sample_env) (Some (Datetime 738886 0)) (Some (Datetime 739038 0))
              = Returns (Datetime 738886 0, Datetime 739038 0)"
    using sample_clock by (simp add: backtest_window_in_range)
  have h7: "CHR ''.'' \<in> set ''my_strategy.py''" by simp
  show ?thesis
    using backtest_engine_arguments [OF h1 h2 h3 h4 h5 sample_api_key] h1 h2 h3 h4 h5 h7
      sample_api_key
    by (simp add: f)
qed

section \<open>Date arguments that do not parse: claim C10\<close>

text \<open>
  C10 says that every \<^verbatim>\<open>--start\<close> or \<^verbatim>\<open>--end\<close> that is supplied and is not a
  well-formed \<^verbatim>\<open>YYYY-MM-DD\<close> string makes date parsing raise. The script parses an
  argument only when it is true, and the empty string is false: with
  \<^verbatim>\<open>--start ""\<close> nothing is parsed, nothing is raised and the backtest runs over the
  default window.
\<close>

theorem malformed_date_counterexample:
  "start (sample_args\<lparr>start := Some []\<rparr>) = Some []
   \<and> \<not> well_formed_ymd []
   \<and> python_process sample_env (sample_args\<lparr>start := Some []\<rparr>)
       = ([Print ''Starting Backtest...'',
           Backtest (PyClass ''MyStrategy'' ''my_strategy'')
             \<lparr> datasource_class = ''PolygonDataBacktesting'',
               backtesting_start = Datetime 739634 34200000000,
               backtesting_end = Datetime 739999 34200000000,
               polygon_api_key = ''secret'',
               polygon_has_paid_subscription = True,
               risk_free_rate = 5.233,
               buy_trading_fees = [TradingFee 0.005],
               sell_trading_fees = [TradingFee 0.005],
               logfile = ''logs/my_strategy.log'',
               parameters = [] \<rparr>], 0)"
proof -
  let ?a = "sample_args\<lparr>start := Some []\<rparr>"
  have f: "strategy_file ?a = ''my_strategy.py''" "live ?a = False" "broker ?a = ''Kraken''"
    by (simp_all add: sample_args_def)
  have r: "resolve_strategy sample_env (hd (rsplit1 CHR ''.'' (strategy_file ?a)))
             = ([], Returns (PyClass ''MyStrategy'' ''my_strategy''))"
    by (rule sample_resolve_args) (rule f(1))
  have p: "parse_date (start ?a) = Returns None" "parse_date (end' ?a) = Returns None"
    by (simp_all add: sample_args_def parse_date_def)
  have w: "backtest_window (now sample_env) None None
             = Returns (Datetime 739634 34200000000, Datetime 739999 34200000000)"
    using sample_clock by (simp add: backtest_window_in_range) (simp add: sample_env_def days_before_def)
  have "main sample_env ?a
          = run_strategy sample_env ''my_strategy'' (PyClass ''MyStrategy'' ''my_strategy'') False
              ''Kraken'' None None"
    using main_resolved [OF r p] by (simp add: f)
  then show ?thesis
    by (simp add: run_strategy_backtest [OF w sample_api_key] python_process_def
        well_formed_ymd_def)
qed

text \<open>
  C10, as the code has it. When the strategy has been resolved and \<^verbatim>\<open>--start\<close> or
  \<^verbatim>\<open>--end\<close> is a non-empty string that the parser does not take, the script raises
  \<^verbatim>\<open>ValueError\<close> and nobody catches it: the process writes the traceback and ends
  with status 1, with no prompt, no broker, no backtest and no line of the resolution
  handler. The parser takes exactly the strings \<^const>\<open>accepted_ymd\<close>, which include
  every well-formed \<^verbatim>\<open>YYYY-MM-DD\<close> string.
\<close>

theorem rejected_date_raises_ValueError:
  assumes "resolve_strategy e (hd (rsplit1 CHR ''.'' (strategy_file a))) = (t, Returns c)"
    and "rejected_date_arg (start a) \<or> rejected_date_arg (end' a)"
  shows "\<exists>msg. python_process e a = ([Traceback (ValueError msg)], 1)"
proof -
  let ?mn = "hd (rsplit1 CHR ''.'' (strategy_file a))"
  from assms(1) have t: "t = []" by (rule resolve_strategy_Returns_trace)
  have raised: "\<exists>msg. main e a = ([], Raises (ValueError msg))"
  proof (cases "rejected_date_arg (start a)")
    case True
    then obtain s where "start a = Some s" "s \<noteq> []" "\<not> accepted_ymd s"
      by (auto simp add: rejected_date_arg_def split: option.splits)
    with rejected_strptime [of s] obtain msg where
      "parse_date (start a) = Raises (ValueError msg)" by auto
    with assms(1) t have "main e a = ([], Raises (ValueError msg))"
      by (simp add: main_def Let_def)
    then show ?thesis by blast
  next
    case False
    with assms(2) obtain s where "end' a = Some s" "s \<noteq> []" "\<not> accepted_ymd s"
      by (auto simp add: rejected_date_arg_def split: option.splits)
    with rejected_strptime [of s] obtain msg where
      u: "parse_date (end' a) = Raises (ValueError msg)" by auto
    from parse_date_result [of "start a"] show ?thesis
    proof
      assume "\<exists>d. parse_date (start a) = Returns d"
      then obtain d where "parse_date (start a) = Returns d" by blast
      with assms(1) t u have "main e a = ([], Raises (ValueError msg))"
        by (simp add: main_def Let_def)
      then show ?thesis by blast
    next
      assume "\<exists>msg'. parse_date (start a) = Raises (ValueError msg')"
      then obtain msg' where "parse_date (start a) = Raises (ValueError msg')" by blast
      with assms(1) t have "main e a = ([], Raises (ValueError msg'))"
        by (simp add: main_def Let_def)
      then show ?thesis by blast
    qed
  qed
  then obtain msg where "main e a = ([], Raises (ValueError msg))" by blast
  then have "python_process e a = ([Traceback (ValueError msg)], 1)"
    by (simp add: python_process_def)
  then show ?thesis by blast
qed

theorem rejected_date_raises_ValueError_witness:
  "resolve_strategy sample_env
      (hd (rsplit1 CHR ''.'' (strategy_file (sample_args\<lparr>start := Some ''tomorrow''\<rparr>))))
     = ([], Returns (PyClass ''MyStrategy'' ''my_strategy''))
   \<and> rejected_date_arg (start (sample_args\<lparr>start := Some ''tomorrow''\<rparr>))
   \<and> (\<exists>msg. python_process sample_env (sample_args\<lparr>start := Some ''tomorrow''\<rparr>)
               = ([Traceback (ValueError msg)], 1))"
proof -
  let ?a = "sample_args\<lparr>start := Some ''tomorrow''\<rparr>"
  have h1: "resolve_strategy sample_env (hd (rsplit1 CHR ''.'' (strategy_file ?a)))
              = ([], Returns (PyClass ''MyStrategy'' ''my_strategy''))"
    by (rule sample_resolve_args) (simp add: sample_args_def)
  have h2: "rejected_date_arg (start ?a)"
    by (simp add: rejected_date_arg_def accepted_ymd_def)
  then have h3: "rejected_date_arg (start ?a) \<or> rejected_date_arg (end' ?a)" by simp
  show ?thesis
    using rejected_date_raises_ValueError [OF h1 h3] h1 h2 by simp
qed

end
